theory Spec2Isabelle
  imports Complex_Main "HOL-Library.Word" "HOL-Library.Log_Nat"
begin

unbundle bit_operations_syntax

chapter \<open>The BFC arena of onnxruntime: a shallow embedding\<close>

text \<open>
  The development follows \<^verbatim>\<open>core/framework/bfc_arena.h\<close> and
  \<^verbatim>\<open>core/framework/allocator.h\<close>. Functions whose bodies are in the headers are
  translated line by line. \<^verbatim>\<open>size_t\<close>, \<^verbatim>\<open>uint64_t\<close> and \<^verbatim>\<open>uintptr_t\<close> are 64-bit words,
  \<^verbatim>\<open>int\<close> is a signed 32-bit word where a narrowing conversion can change the value and a
  mathematical integer where the value provably stays small.
\<close>

section \<open>Definitions\<close>

subsection \<open>Machine types and constants\<close>

type_synonym size_t = "64 word"
type_synonym uint64_t = "64 word"
type_synonym uintptr_t = "64 word"
type_synonym c_int = "32 word"
type_synonym int64_t = "64 word"

text \<open>
  \<^verbatim>\<open>using ChunkHandle = size_t\<close> is an index into the chunk table, hence a natural number;
  \<^verbatim>\<open>kInvalidChunkHandle = static_cast<size_t>(-1)\<close> is the largest 64-bit value.
\<close>

type_synonym ChunkHandle = nat

definition kInvalidChunkHandle :: ChunkHandle where
  "kInvalidChunkHandle = 2 ^ 64 - 1"

definition kInvalidBinNum :: int where
  "kInvalidBinNum = - 1"

definition kNumBins :: int where
  "kNumBins = 21"

definition kMinAllocationBits :: nat where
  "kMinAllocationBits = 8"

definition kMinAllocationSize :: size_t where
  "kMinAllocationSize = push_bit kMinAllocationBits 1"

subsection \<open>Binary logarithms\<close>

text \<open>
  \<^verbatim>\<open>Log2FloorNonZeroSlow\<close>: the loop \<^verbatim>\<open>while (n > 0) { r++; n >>= 1; }\<close> started at
  \<^verbatim>\<open>r = 0\<close>, then \<^verbatim>\<open>return r - 1\<close>. The counter never exceeds 64, so it is an integer.
\<close>

function Log2FloorNonZeroSlow_loop :: "int \<Rightarrow> uint64_t \<Rightarrow> int" where
  "Log2FloorNonZeroSlow_loop r n =
     (if n > 0 then Log2FloorNonZeroSlow_loop (r + 1) (drop_bit 1 n) else r)"
  by pat_completeness auto
termination
proof (relation "measure (\<lambda>(r, n). unat n)")
  show "wf (measure (\<lambda>(r, n). unat n))" by simp
next
  fix r :: int and n :: uint64_t
  assume "0 < n"
  then have pos: "unat n \<noteq> 0" by (simp add: unat_gt_0 word_greater_zero_iff)
  have "unat (drop_bit 1 n) = drop_bit 1 (unat n)" by (rule unat_drop_bit_eq)
  also have "\<dots> = unat n div 2" by (simp add: drop_bit_eq_div)
  finally have "unat (drop_bit 1 n) < unat n" using pos by simp
  then show "((r + 1, drop_bit 1 n), (r, n)) \<in> measure (\<lambda>(r, n). unat n)"
    by simp
qed

declare Log2FloorNonZeroSlow_loop.simps [simp del]

definition Log2FloorNonZeroSlow :: "uint64_t \<Rightarrow> int" where
  "Log2FloorNonZeroSlow n = Log2FloorNonZeroSlow_loop 0 n - 1"

text \<open>
  The compiler intrinsics are not part of the repository. \<^verbatim>\<open>__builtin_clzll\<close> counts the
  zero bits above the most significant one bit of a 64-bit value; the scan below starts at
  bit 63. For the argument 0 the C result is undefined; the scan then yields 64.
\<close>

fun clz_from :: "nat \<Rightarrow> 'a::len word \<Rightarrow> nat" where
  "clz_from 0 n = 0"
| "clz_from (Suc k) n = (if bit n k then 0 else Suc (clz_from k n))"

definition builtin_clzll :: "uint64_t \<Rightarrow> nat" where
  "builtin_clzll n = clz_from 64 n"

text \<open>
  \<^verbatim>\<open>_BitScanReverse\<close> and \<^verbatim>\<open>_BitScanReverse64\<close> search the mask from the most significant
  bit downwards for a set bit. They return nonzero and store the bit position in
  \<^verbatim>\<open>*index\<close> if one is found, and return 0 leaving \<^verbatim>\<open>*index\<close> as it was otherwise.
  The model takes the old content of \<^verbatim>\<open>index\<close> and returns the flag and the new content.
\<close>

fun bsr_from :: "nat \<Rightarrow> 'a::len word \<Rightarrow> nat option" where
  "bsr_from 0 msk = None"
| "bsr_from (Suc k) msk = (if bit msk k then Some k else bsr_from k msk)"

definition BitScanReverse :: "32 word \<Rightarrow> 32 word \<Rightarrow> bool \<times> 32 word" where
  "BitScanReverse index msk =
     (case bsr_from 32 msk of None \<Rightarrow> (False, index) | Some k \<Rightarrow> (True, of_nat k))"

definition BitScanReverse64 :: "32 word \<Rightarrow> 64 word \<Rightarrow> bool \<times> 32 word" where
  "BitScanReverse64 index msk =
     (case bsr_from 64 msk of None \<Rightarrow> (False, index) | Some k \<Rightarrow> (True, of_nat k))"

text \<open>
  \<^verbatim>\<open>Log2FloorNonZero\<close> has one body per platform. With \<^verbatim>\<open>__GNUC__\<close> it is
  \<^verbatim>\<open>63 ^ __builtin_clzll(n)\<close>.
\<close>

definition Log2FloorNonZero :: "uint64_t \<Rightarrow> int" where
  "Log2FloorNonZero n = 63 XOR int (builtin_clzll n)"

text \<open>
  On 64-bit Windows: \<^verbatim>\<open>unsigned long index; _BitScanReverse64(&index, n); return index;\<close>.
  The variable \<^verbatim>\<open>index\<close> is not initialised; its first content is the parameter \<open>index0\<close>.
\<close>

definition Log2FloorNonZero_win64 :: "32 word \<Rightarrow> uint64_t \<Rightarrow> int" where
  "Log2FloorNonZero_win64 index0 n = sint (snd (BitScanReverse64 index0 n))"

text \<open>
  On 32-bit Windows the upper half is scanned first:
  \<^verbatim>\<open>high = n >> 32; if (_BitScanReverse(&index, high) > 0) index += 32;
  else { low = (n << 32) >> 32; _BitScanReverse(&index, low); } return index;\<close>
\<close>

definition Log2FloorNonZero_win32 :: "32 word \<Rightarrow> uint64_t \<Rightarrow> int" where
  "Log2FloorNonZero_win32 index0 n =
     (let high = (ucast (drop_bit 32 n) :: 32 word);
          (found, index) = BitScanReverse index0 high
      in if found then sint (index + 32)
         else (let low = (ucast (drop_bit 32 (push_bit 32 n)) :: 32 word)
               in sint (snd (BitScanReverse index low))))"

subsection \<open>Size classes\<close>

text \<open>\<^verbatim>\<open>BinNumToSize(index) = static_cast<size_t>(256) << index\<close>\<close>

definition BinNumToSize :: "int \<Rightarrow> size_t" where
  "BinNumToSize index = push_bit (nat index) 256"

text \<open>
  \<^verbatim>\<open>BinNumForSize(bytes)\<close>: \<^verbatim>\<open>v = max(bytes, 256) >> kMinAllocationBits;
  b = min(kNumBins - 1, Log2FloorNonZero(v))\<close>.
\<close>

definition BinNumForSize :: "size_t \<Rightarrow> int" where
  "BinNumForSize bytes =
     (let v = drop_bit kMinAllocationBits (max bytes 256)
      in min (kNumBins - 1) (Log2FloorNonZero v))"

subsection \<open>Arena configuration\<close>

text \<open>
  \<^verbatim>\<open>struct OrtArenaCfg\<close> of \<^verbatim>\<open>allocator.h\<close>. The \<^verbatim>\<open>int\<close> and \<^verbatim>\<open>int64_t\<close> fields are words
  read as two's complement numbers (\<open>sint\<close>); \<open>\<le>s\<close> is the signed comparison.
\<close>

record OrtArenaCfg =
  max_mem :: size_t
  arena_extend_strategy :: c_int
  initial_chunk_size_bytes :: c_int
  max_dead_bytes_per_chunk :: c_int
  initial_growth_chunk_size_bytes :: c_int
  max_power_of_two_extend_bytes :: int64_t

definition IsValid :: "OrtArenaCfg \<Rightarrow> bool" where
  "IsValid cfg \<longleftrightarrow>
     - 1 \<le>s arena_extend_strategy cfg \<and> arena_extend_strategy cfg \<le>s 1 \<and>
     - 1 \<le>s initial_chunk_size_bytes cfg \<and>
     - 1 \<le>s max_dead_bytes_per_chunk cfg \<and>
     - 1 \<le>s initial_growth_chunk_size_bytes cfg \<and>
     - 1 \<le>s max_power_of_two_extend_bytes cfg"

subsection \<open>Failures\<close>

text \<open>
  \<^verbatim>\<open>ORT_ENFORCE\<close> is defined outside the two headers; a failed check raises an exception
  and leaves the function at once, which is the value \<open>EnforceFailed\<close>. \<open>RegionNotFound\<close> is
  the fatal condition that a pointer is not found: the path of \<^verbatim>\<open>RegionFor\<close> that logs at
  severity FATAL and returns the null region, which its callers dereference. \<open>OutOfBounds\<close>
  marks an array access outside the array, which C++ leaves undefined. None of them is
  ordinary control flow.
\<close>

datatype failure = EnforceFailed | RegionNotFound | OutOfBounds

subsection \<open>Allocation regions\<close>

text \<open>
  The members \<^verbatim>\<open>ptr_\<close>, \<^verbatim>\<open>memory_size_\<close>, \<^verbatim>\<open>end_ptr_\<close>, \<^verbatim>\<open>id_\<close> and \<^verbatim>\<open>handles_\<close> of
  \<^verbatim>\<open>class AllocationRegion\<close>; a name cannot end in an underscore here, so each carries the
  prefix \<open>r_\<close> instead.
\<close>

record AllocationRegion =
  r_ptr :: uintptr_t
  r_memory_size :: size_t
  r_end_ptr :: uintptr_t
  r_id :: int64_t
  r_handles :: "ChunkHandle list"

text \<open>
  The constructor enforces \<^verbatim>\<open>0 == memory_size % kMinAllocationSize\<close> and fills
  \<^verbatim>\<open>(memory_size + kMinAllocationSize - 1) / kMinAllocationSize\<close> slots with the invalid handle.
\<close>

definition new_AllocationRegion :: "uintptr_t \<Rightarrow> size_t \<Rightarrow> int64_t \<Rightarrow> failure + AllocationRegion" where
  "new_AllocationRegion p memory_size rid =
     (if memory_size mod kMinAllocationSize \<noteq> 0 then Inl EnforceFailed
      else let n_handles = (memory_size + kMinAllocationSize - 1) div kMinAllocationSize
           in Inr \<lparr>r_ptr = p, r_memory_size = memory_size, r_end_ptr = p + memory_size,
                   r_id = rid, r_handles = replicate (unat n_handles) kInvalidChunkHandle\<rparr>)"

text \<open>
  \<^verbatim>\<open>IndexFor\<close> enforces \<^verbatim>\<open>p_int >= base_int\<close> and \<^verbatim>\<open>p_int < base_int + memory_size_\<close>
  and returns \<^verbatim>\<open>static_cast<int>((p_int - base_int) >> kMinAllocationBits)\<close>: the low 32 bits
  of the quotient, read as a signed number.
\<close>

definition IndexFor :: "AllocationRegion \<Rightarrow> uintptr_t \<Rightarrow> failure + int" where
  "IndexFor r p =
     (if \<not> r_ptr r \<le> p then Inl EnforceFailed
      else if \<not> p < r_ptr r + r_memory_size r then Inl EnforceFailed
      else Inr (sint (ucast (drop_bit kMinAllocationBits (p - r_ptr r)) :: c_int)))"

text \<open>\<^verbatim>\<open>handles_[i]\<close> for an \<^verbatim>\<open>int i\<close>: defined only inside the array.\<close>

definition handle_slot :: "AllocationRegion \<Rightarrow> int \<Rightarrow> failure + nat" where
  "handle_slot r i =
     (if 0 \<le> i \<and> nat i < length (r_handles r) then Inr (nat i) else Inl OutOfBounds)"

definition region_get_handle :: "AllocationRegion \<Rightarrow> uintptr_t \<Rightarrow> failure + ChunkHandle" where
  "region_get_handle r p =
     (case IndexFor r p of Inl e \<Rightarrow> Inl e
      | Inr i \<Rightarrow> (case handle_slot r i of Inl e \<Rightarrow> Inl e
                   | Inr k \<Rightarrow> Inr (r_handles r ! k)))"

definition region_set_handle :: "AllocationRegion \<Rightarrow> uintptr_t \<Rightarrow> ChunkHandle \<Rightarrow> failure + AllocationRegion" where
  "region_set_handle r p h =
     (case IndexFor r p of Inl e \<Rightarrow> Inl e
      | Inr i \<Rightarrow> (case handle_slot r i of Inl e \<Rightarrow> Inl e
                   | Inr k \<Rightarrow> Inr (r\<lparr>r_handles := (r_handles r)[k := h]\<rparr>)))"

definition region_erase :: "AllocationRegion \<Rightarrow> uintptr_t \<Rightarrow> failure + AllocationRegion" where
  "region_erase r p = region_set_handle r p kInvalidChunkHandle"

subsection \<open>Region manager\<close>

text \<open>
  \<^verbatim>\<open>RegionManager\<close> keeps \<^verbatim>\<open>regions_\<close> sorted by \<^verbatim>\<open>end_ptr\<close>. Every lookup is
  \<^verbatim>\<open>std::upper_bound(regions_.begin(), regions_.end(), p, &Comparator)\<close> with
  \<^verbatim>\<open>Comparator(ptr, other) = ptr < other.end_ptr()\<close>: on the sorted vector it is the position
  of the first region whose end lies above \<open>p\<close>, or \<^verbatim>\<open>regions_.end()\<close>.
\<close>

definition Comparator :: "uintptr_t \<Rightarrow> AllocationRegion \<Rightarrow> bool" where
  "Comparator p other \<longleftrightarrow> p < r_end_ptr other"

definition upper_bound :: "AllocationRegion list \<Rightarrow> uintptr_t \<Rightarrow> nat" where
  "upper_bound rs p = length (takeWhile (\<lambda>r. \<not> Comparator p r) rs)"

text \<open>
  \<^verbatim>\<open>RegionFor\<close>: the entry found, or the FATAL log line and the null region. Every caller
  dereferences the result at once, so the second case is the failure \<open>RegionNotFound\<close>.
\<close>

definition RegionFor :: "AllocationRegion list \<Rightarrow> uintptr_t \<Rightarrow> failure + nat" where
  "RegionFor rs p =
     (let entry = upper_bound rs p
      in if entry \<noteq> length rs then Inr entry else Inl RegionNotFound)"

definition AddAllocationRegion ::
  "AllocationRegion list \<Rightarrow> uintptr_t \<Rightarrow> size_t \<Rightarrow> int64_t \<Rightarrow> failure + AllocationRegion list" where
  "AddAllocationRegion rs p memory_size rid =
     (let entry = upper_bound rs p
      in case new_AllocationRegion p memory_size rid of
           Inl e \<Rightarrow> Inl e
         | Inr r \<Rightarrow> Inr (take entry rs @ r # drop entry rs))"

definition RemoveAllocationRegion ::
  "AllocationRegion list \<Rightarrow> uintptr_t \<Rightarrow> failure + AllocationRegion list" where
  "RemoveAllocationRegion rs p =
     (let entry = upper_bound rs p
      in if entry \<noteq> length rs then Inr (take entry rs @ drop (Suc entry) rs)
         else Inl EnforceFailed)"

definition get_handle :: "AllocationRegion list \<Rightarrow> uintptr_t \<Rightarrow> failure + ChunkHandle" where
  "get_handle rs p =
     (case RegionFor rs p of Inl e \<Rightarrow> Inl e | Inr k \<Rightarrow> region_get_handle (rs ! k) p)"

definition set_handle ::
  "AllocationRegion list \<Rightarrow> uintptr_t \<Rightarrow> ChunkHandle \<Rightarrow> failure + AllocationRegion list" where
  "set_handle rs p h =
     (case RegionFor rs p of Inl e \<Rightarrow> Inl e
      | Inr k \<Rightarrow> (case region_set_handle (rs ! k) p h of Inl e \<Rightarrow> Inl e
                   | Inr r \<Rightarrow> Inr (rs[k := r])))"

definition erase :: "AllocationRegion list \<Rightarrow> uintptr_t \<Rightarrow> failure + AllocationRegion list" where
  "erase rs p = set_handle rs p kInvalidChunkHandle"

subsection \<open>Chunks and bins\<close>

text \<open>
  \<^verbatim>\<open>struct Chunk\<close>. The member \<^verbatim>\<open>size\<close> is called \<open>chunk_size\<close> here. \<^verbatim>\<open>Stream* stream\<close> is
  the identity of a stream or null.
\<close>

record Chunk =
  chunk_size :: size_t
  requested_size :: size_t
  allocation_id :: int
  ptr :: uintptr_t
  prev :: ChunkHandle
  "next" :: ChunkHandle
  bin_num :: int
  stream :: "nat option"
  stream_sync_id :: uint64_t

definition new_Chunk :: Chunk where
  "new_Chunk = \<lparr>chunk_size = 0, requested_size = 0, allocation_id = - 1, ptr = 0,
     prev = kInvalidChunkHandle, next = kInvalidChunkHandle, bin_num = kInvalidBinNum,
     stream = None, stream_sync_id = 0\<rparr>"

definition in_use :: "Chunk \<Rightarrow> bool" where
  "in_use c \<longleftrightarrow> allocation_id c \<noteq> - 1"

text \<open>
  \<^verbatim>\<open>Bin::ChunkComparator\<close>: \<^verbatim>\<open>if (a->size != b->size) return a->size < b->size;
  return a->ptr < b->ptr;\<close> on the two chunks that \<^verbatim>\<open>ChunkFromHandle\<close> yields.
  The table lookup of the parent allocator is the first argument.
\<close>

definition ChunkComparator :: "(ChunkHandle \<Rightarrow> Chunk) \<Rightarrow> ChunkHandle \<Rightarrow> ChunkHandle \<Rightarrow> bool" where
  "ChunkComparator lookup ha hb =
     (let a = lookup ha; b = lookup hb
      in if chunk_size a \<noteq> chunk_size b then chunk_size a < chunk_size b
         else ptr a < ptr b)"

text \<open>
  \<^verbatim>\<open>std::set<ChunkHandle, ChunkComparator>\<close> as the list of its elements in iteration
  order. Insertion puts the key in front of the first element it is less than and drops a
  key that is equivalent to an element; \<^verbatim>\<open>erase(key)\<close> removes the equivalent element.
\<close>

fun set_insert :: "('a \<Rightarrow> 'a \<Rightarrow> bool) \<Rightarrow> 'a \<Rightarrow> 'a list \<Rightarrow> 'a list" where
  "set_insert lt k [] = [k]"
| "set_insert lt k (x # xs) =
     (if lt k x then k # x # xs
      else if lt x k then x # set_insert lt k xs
      else x # xs)"

definition set_erase :: "('a \<Rightarrow> 'a \<Rightarrow> bool) \<Rightarrow> 'a \<Rightarrow> 'a list \<Rightarrow> 'a list" where
  "set_erase lt k xs = filter (\<lambda>x. lt x k \<or> lt k x) xs"

record Bin =
  bin_size :: size_t
  free_chunks :: "ChunkHandle list"

subsection \<open>Streams\<close>

text \<open>
  Modelled from the spec: the class \<^verbatim>\<open>Stream\<close> (its header \<^verbatim>\<open>stream_handles.h\<close> is not
  among the sources). The arena uses two properties of a stream: an identity that can be
  compared, and readable synchronization counters. \<open>sync_id\<close> is the stream's own counter;
  \<open>last_wait\<close> holds, for each producer stream this stream has synchronized with, the
  producer's sync id that was copied at the latest such synchronization.
\<close>

record Stream =
  stream_ident :: nat
  sync_id :: uint64_t
  last_wait :: "(nat \<times> uint64_t) list"

definition GetSyncIdForLastWaitOnStream :: "Stream \<Rightarrow> nat \<Rightarrow> uint64_t option" where
  "GetSyncIdForLastWaitOnStream s producer = map_of (last_wait s) producer"

text \<open>
  Modelled from the spec: one synchronization of a consumer with a producer, as the comment
  on \<^verbatim>\<open>IAllocator::AllocOnStream\<close> tells it: the producer's sync id is incremented for the
  new event, and the pair of producer and new sync id is copied into the consumer's
  sync information.
\<close>

definition synchronize :: "(nat \<Rightarrow> Stream) \<Rightarrow> nat \<Rightarrow> nat \<Rightarrow> (nat \<Rightarrow> Stream)" where
  "synchronize tbl producer consumer =
     (let p = tbl producer;
          p' = p\<lparr>sync_id := sync_id p + 1\<rparr>;
          tbl' = tbl(producer := p');
          c = tbl' consumer
      in tbl'(consumer := c\<lparr>last_wait := (producer, sync_id p') # last_wait c\<rparr>))"

fun run_history :: "(nat \<Rightarrow> Stream) \<Rightarrow> (nat \<times> nat) list \<Rightarrow> (nat \<Rightarrow> Stream)" where
  "run_history tbl [] = tbl"
| "run_history tbl ((producer, consumer) # evs) =
     run_history (synchronize tbl producer consumer) evs"

subsection \<open>The arena\<close>

text \<open>
  Modelled from the spec: the enumeration \<^verbatim>\<open>ArenaExtendStrategy\<close>
  (\<^verbatim>\<open>arena_extend_strategy.h\<close> is not among the sources); the configuration value 0 selects
  the first strategy and 1 the second.
\<close>

datatype ArenaExtendStrategy = kNextPowerOfTwo | kSameAsRequested

datatype ArenaType = BaseArena | StreamAwareArena

text \<open>
  Modelled from the spec: the statistics record (\<^verbatim>\<open>allocator_stats.h\<close> is not among the
  sources), with the counters that the description of \<^verbatim>\<open>GetStats\<close> lists.
\<close>

record AllocatorStats =
  num_allocs :: int
  num_reserves :: int
  num_arena_extensions :: int
  num_arena_shrinkages :: int
  bytes_in_use :: int
  max_bytes_in_use :: int
  total_allocated_bytes :: int

text \<open>
  The data members of \<^verbatim>\<open>class BFCArena\<close>, each with the prefix \<open>a_\<close> in place of the
  trailing underscore. \<^verbatim>\<open>region_manager_\<close> is its vector of regions. The free list of unused
  chunk records is the list of their handles, first element first. The last field is not a
  data member: the spec leaves open when a chosen chunk that is larger than the request is
  split (the threshold involving \<^verbatim>\<open>max_dead_bytes_per_chunk\<close>), so the rule is a parameter
  of the arena, applied to the size of the chunk and the rounded request.
\<close>

record BFCArena =
  a_arena_type :: ArenaType
  a_memory_limit :: size_t
  a_arena_extend_strategy :: ArenaExtendStrategy
  a_bins :: "Bin list"
  a_curr_region_allocation_bytes :: size_t
  a_regions :: "AllocationRegion list"
  a_chunks :: "Chunk list"
  a_free_chunks_list :: "ChunkHandle list"
  a_next_allocation_id :: int
  a_stats :: AllocatorStats
  a_reserved_chunks :: "(uintptr_t \<times> size_t) list"
  a_initial_chunk_size_bytes :: int
  a_max_dead_bytes_per_chunk :: int
  a_initial_growth_chunk_size_bytes :: int
  a_max_power_of_two_extend_bytes :: int
  a_consider_first_allocation_region_for_shrinkage :: bool
  a_split_rule :: "size_t \<Rightarrow> size_t \<Rightarrow> bool"

text \<open>
  The bodies of the member functions below are in \<^verbatim>\<open>bfc_arena.cc\<close>, which is not among the
  sources; the header declares them. Each definition is modelled from the spec and says so.
\<close>

text \<open>
  Modelled from the spec: \<^verbatim>\<open>ChunkFromHandle\<close> (body missing). Handles are indices into the
  backing array of chunk records; an index outside the table fails an enforce check.
\<close>

definition ChunkFromHandle :: "BFCArena \<Rightarrow> ChunkHandle \<Rightarrow> failure + Chunk" where
  "ChunkFromHandle a h =
     (if h < length (a_chunks a) then Inr (a_chunks a ! h) else Inl EnforceFailed)"

text \<open>A write through the pointer that \<^verbatim>\<open>ChunkFromHandle\<close> returned.\<close>

definition put_chunk :: "BFCArena \<Rightarrow> ChunkHandle \<Rightarrow> Chunk \<Rightarrow> BFCArena" where
  "put_chunk a h c = a\<lparr>a_chunks := (a_chunks a)[h := c]\<rparr>"

text \<open>
  \<^verbatim>\<open>BinFromIndex(index)\<close> addresses \<^verbatim>\<open>bins_space_\<close> at \<^verbatim>\<open>index * sizeof(Bin)\<close>, which is
  defined for the \<^verbatim>\<open>kNumBins\<close> bins only.
\<close>

definition bin_slot :: "BFCArena \<Rightarrow> int \<Rightarrow> failure + nat" where
  "bin_slot a index =
     (if 0 \<le> index \<and> nat index < length (a_bins a) then Inr (nat index) else Inl OutOfBounds)"

definition put_free_chunks :: "BFCArena \<Rightarrow> nat \<Rightarrow> ChunkHandle list \<Rightarrow> BFCArena" where
  "put_free_chunks a k fs =
     a\<lparr>a_bins := (a_bins a)[k := (a_bins a ! k)\<lparr>free_chunks := fs\<rparr>]\<rparr>"

text \<open>The comparator of the bins of arena \<open>a\<close>; the sets only hold handles of the table.\<close>

definition chunk_less :: "BFCArena \<Rightarrow> ChunkHandle \<Rightarrow> ChunkHandle \<Rightarrow> bool" where
  "chunk_less a = ChunkComparator (\<lambda>h. a_chunks a ! h)"

text \<open>
  Modelled from the spec: \<^verbatim>\<open>InsertFreeChunkIntoBin\<close> (body missing): a free chunk is
  registered in the bin of its size class.
\<close>

definition InsertFreeChunkIntoBin :: "BFCArena \<Rightarrow> ChunkHandle \<Rightarrow> failure + BFCArena" where
  "InsertFreeChunkIntoBin a h =
     (case ChunkFromHandle a h of Inl e \<Rightarrow> Inl e
      | Inr c \<Rightarrow>
          if in_use c \<or> bin_num c \<noteq> kInvalidBinNum then Inl EnforceFailed
          else let b = BinNumForSize (chunk_size c);
                   a1 = put_chunk a h (c\<lparr>bin_num := b\<rparr>)
               in case bin_slot a1 b of Inl e \<Rightarrow> Inl e
                  | Inr k \<Rightarrow>
                      Inr (put_free_chunks a1 k
                            (set_insert (chunk_less a1) h (free_chunks (a_bins a1 ! k)))))"

text \<open>
  Modelled from the spec: \<^verbatim>\<open>RemoveFreeChunkFromBin\<close> (body missing): a free chunk leaves the
  set of its bin; a chunk that the set does not hold fails an enforce check.
\<close>

definition RemoveFreeChunkFromBin :: "BFCArena \<Rightarrow> ChunkHandle \<Rightarrow> failure + BFCArena" where
  "RemoveFreeChunkFromBin a h =
     (case ChunkFromHandle a h of Inl e \<Rightarrow> Inl e
      | Inr c \<Rightarrow>
          if in_use c \<or> bin_num c = kInvalidBinNum then Inl EnforceFailed
          else case bin_slot a (bin_num c) of Inl e \<Rightarrow> Inl e
               | Inr k \<Rightarrow>
                   let fs = free_chunks (a_bins a ! k);
                       fs' = set_erase (chunk_less a) h fs
                   in if length fs' = length fs then Inl EnforceFailed
                      else Inr (put_chunk (put_free_chunks a k fs') h
                                  (c\<lparr>bin_num := kInvalidBinNum\<rparr>)))"

text \<open>
  Modelled from the spec: \<^verbatim>\<open>RemoveFreeChunkIterFromBin\<close> (body missing): the element under
  the iterator, which is the handle \<open>h\<close> in bin \<open>k\<close>, is erased from the set.
\<close>

definition RemoveFreeChunkIterFromBin :: "BFCArena \<Rightarrow> nat \<Rightarrow> ChunkHandle \<Rightarrow> failure + BFCArena" where
  "RemoveFreeChunkIterFromBin a k h =
     (case ChunkFromHandle a h of Inl e \<Rightarrow> Inl e
      | Inr c \<Rightarrow>
          if in_use c \<or> bin_num c = kInvalidBinNum then Inl EnforceFailed
          else Inr (put_chunk (put_free_chunks a k (remove1 h (free_chunks (a_bins a ! k)))) h
                      (c\<lparr>bin_num := kInvalidBinNum\<rparr>)))"

text \<open>
  Modelled from the spec: \<^verbatim>\<open>AllocateChunk\<close> and \<^verbatim>\<open>DeallocateChunk\<close> (bodies missing): a
  free list of unused handle slots serves chunk records; the table grows when the list is
  empty and never shrinks.
\<close>

definition AllocateChunk :: "BFCArena \<Rightarrow> ChunkHandle \<times> BFCArena" where
  "AllocateChunk a =
     (case a_free_chunks_list a of
        [] \<Rightarrow> (length (a_chunks a), a\<lparr>a_chunks := a_chunks a @ [new_Chunk]\<rparr>)
      | h # fs \<Rightarrow> (h, a\<lparr>a_free_chunks_list := fs\<rparr>))"

definition DeallocateChunk :: "BFCArena \<Rightarrow> ChunkHandle \<Rightarrow> failure + BFCArena" where
  "DeallocateChunk a h =
     (case ChunkFromHandle a h of Inl e \<Rightarrow> Inl e
      | Inr c \<Rightarrow>
          Inr ((put_chunk a h (c\<lparr>allocation_id := - 1, bin_num := kInvalidBinNum,
                                   stream := None, stream_sync_id := 0\<rparr>))
                 \<lparr>a_free_chunks_list := h # a_free_chunks_list a\<rparr>))"

text \<open>
  Modelled from the spec: \<^verbatim>\<open>DeleteChunk\<close> (body missing): the record leaves the pointer
  index of its region and returns to the pool of free records.
\<close>

definition DeleteChunk :: "BFCArena \<Rightarrow> ChunkHandle \<Rightarrow> failure + BFCArena" where
  "DeleteChunk a h =
     (case ChunkFromHandle a h of Inl e \<Rightarrow> Inl e
      | Inr c \<Rightarrow>
          (case erase (a_regions a) (ptr c) of Inl e \<Rightarrow> Inl e
           | Inr rs \<Rightarrow> DeallocateChunk (a\<lparr>a_regions := rs\<rparr>) h))"

text \<open>
  Modelled from the spec: \<^verbatim>\<open>SplitChunk\<close> (body missing): a new record for the remainder is
  spliced into the chain right after \<open>h\<close>, \<open>h\<close> shrinks to \<open>num_bytes\<close>, and the remainder is
  registered in the pointer index of the region and in its bin.
\<close>

definition SplitChunk :: "BFCArena \<Rightarrow> ChunkHandle \<Rightarrow> size_t \<Rightarrow> failure + BFCArena" where
  "SplitChunk a h num_bytes =
     (let (h_new_chunk, a1) = AllocateChunk a
      in case ChunkFromHandle a1 h of Inl e \<Rightarrow> Inl e
         | Inr c \<Rightarrow>
             if in_use c \<or> bin_num c \<noteq> kInvalidBinNum then Inl EnforceFailed
             else case ChunkFromHandle a1 h_new_chunk of Inl e \<Rightarrow> Inl e
                  | Inr nc \<Rightarrow>
                      (case set_handle (a_regions a1) (ptr c + num_bytes) h_new_chunk of
                         Inl e \<Rightarrow> Inl e
                       | Inr rs \<Rightarrow>
                           let h_neighbor = next c;
                               new_chunk = nc\<lparr>stream := stream c,
                                              stream_sync_id := stream_sync_id c,
                                              ptr := ptr c + num_bytes,
                                              chunk_size := chunk_size c - num_bytes,
                                              allocation_id := - 1,
                                              prev := h,
                                              next := h_neighbor\<rparr>;
                               a2 = put_chunk (a1\<lparr>a_regions := rs\<rparr>) h_new_chunk new_chunk;
                               a3 = put_chunk a2 h (c\<lparr>chunk_size := num_bytes, next := h_new_chunk\<rparr>)
                           in if h_neighbor \<noteq> kInvalidChunkHandle
                              then (case ChunkFromHandle a3 h_neighbor of Inl e \<Rightarrow> Inl e
                                    | Inr c_neighbor \<Rightarrow>
                                        InsertFreeChunkIntoBin
                                          (put_chunk a3 h_neighbor (c_neighbor\<lparr>prev := h_new_chunk\<rparr>))
                                          h_new_chunk)
                              else InsertFreeChunkIntoBin a3 h_new_chunk))"






text \<open>
  Modelled from the spec: \<^verbatim>\<open>RoundedBytes\<close> (body missing): \<open>bytes\<close> rounded up to the next
  multiple of \<^verbatim>\<open>kMinAllocationSize\<close>.
\<close>

definition RoundedBytes :: "size_t \<Rightarrow> size_t" where
  "RoundedBytes bytes =
     kMinAllocationSize * ((bytes + kMinAllocationSize - 1) div kMinAllocationSize)"

text \<open>
  Modelled from the spec: the reuse rule of the stream-aware extension, with the strict
  comparison of the comment on \<^verbatim>\<open>IAllocator::AllocOnStream\<close>: a free chunk may be handed to
  a request on stream \<open>s\<close> if it carries the tag of \<open>s\<close> itself, or no tag, or the tag of a
  stream that \<open>s\<close> has synchronized with and the sync id of the chunk is less than the sync
  id that \<open>s\<close> recorded for that stream at the last synchronization.
\<close>

definition safe_to_use :: "Chunk \<Rightarrow> Stream option \<Rightarrow> bool" where
  "safe_to_use c s \<longleftrightarrow>
     stream c = map_option stream_ident s \<or> stream c = None \<or>
     (case (s, stream c) of
        (Some consumer, Some owner) \<Rightarrow>
          (case GetSyncIdForLastWaitOnStream consumer owner of
             Some k \<Rightarrow> stream_sync_id c < k
           | None \<Rightarrow> False)
      | _ \<Rightarrow> False)"

text \<open>
  Modelled from the spec: the search of \<^verbatim>\<open>FindChunkPtr\<close> (body missing). Bins are scanned
  in increasing size order from the bin of the request; within a bin the ordered set is
  walked from its first element, and the first chunk that is large enough and may be
  reused by the stream is the candidate.
\<close>

fun find_in_bin ::
  "BFCArena \<Rightarrow> size_t \<Rightarrow> Stream option \<Rightarrow> ChunkHandle list \<Rightarrow> failure + ChunkHandle option" where
  "find_in_bin a rounded_bytes s [] = Inr None"
| "find_in_bin a rounded_bytes s (h # hs) =
     (case ChunkFromHandle a h of Inl e \<Rightarrow> Inl e
      | Inr c \<Rightarrow>
          if in_use c then Inl EnforceFailed
          else if rounded_bytes \<le> chunk_size c \<and> safe_to_use c s then Inr (Some h)
          else find_in_bin a rounded_bytes s hs)"

fun find_in_bins ::
  "BFCArena \<Rightarrow> size_t \<Rightarrow> Stream option \<Rightarrow> nat list \<Rightarrow> failure + (nat \<times> ChunkHandle) option" where
  "find_in_bins a rounded_bytes s [] = Inr None"
| "find_in_bins a rounded_bytes s (k # ks) =
     (case find_in_bin a rounded_bytes s (free_chunks (a_bins a ! k)) of Inl e \<Rightarrow> Inl e
      | Inr (Some h) \<Rightarrow> Inr (Some (k, h))
      | Inr None \<Rightarrow> find_in_bins a rounded_bytes s ks)"

text \<open>
  Modelled from the spec: \<^verbatim>\<open>SplitFreeChunkFromBin\<close> (body missing): the chosen chunk leaves
  its bin, is split if it is larger than needed and the split rule asks for it, and is
  marked in use with a fresh allocation id, the requested size and the tag of the stream.
\<close>

definition SplitFreeChunkFromBin ::
  "BFCArena \<Rightarrow> nat \<Rightarrow> ChunkHandle \<Rightarrow> size_t \<Rightarrow> size_t \<Rightarrow> Stream option \<Rightarrow> failure + BFCArena" where
  "SplitFreeChunkFromBin a k h rounded_bytes num_bytes s =
     (case RemoveFreeChunkIterFromBin a k h of Inl e \<Rightarrow> Inl e
      | Inr a1 \<Rightarrow>
          (case ChunkFromHandle a1 h of Inl e \<Rightarrow> Inl e
           | Inr c \<Rightarrow>
               (case (if rounded_bytes < chunk_size c \<and> a_split_rule a1 (chunk_size c) rounded_bytes
                      then SplitChunk a1 h rounded_bytes else Inr a1) of Inl e \<Rightarrow> Inl e
                | Inr a2 \<Rightarrow>
                    (case ChunkFromHandle a2 h of Inl e \<Rightarrow> Inl e
                     | Inr c' \<Rightarrow>
                         Inr ((put_chunk a2 h
                                 (c'\<lparr>requested_size := num_bytes,
                                     allocation_id := a_next_allocation_id a2,
                                     stream := map_option stream_ident s,
                                     stream_sync_id := (case s of None \<Rightarrow> 0 | Some t \<Rightarrow> sync_id t)\<rparr>))
                               \<lparr>a_next_allocation_id := a_next_allocation_id a2 + 1,
                                a_stats := (a_stats a2)
                                  \<lparr>num_allocs := num_allocs (a_stats a2) + 1,
                                   bytes_in_use := bytes_in_use (a_stats a2) + uint (chunk_size c'),
                                   max_bytes_in_use :=
                                     max (max_bytes_in_use (a_stats a2))
                                         (bytes_in_use (a_stats a2) + uint (chunk_size c'))\<rparr>\<rparr>)))))"

definition FindChunkPtr ::
  "BFCArena \<Rightarrow> int \<Rightarrow> size_t \<Rightarrow> size_t \<Rightarrow> Stream option \<Rightarrow> failure + (ChunkHandle option \<times> BFCArena)" where
  "FindChunkPtr a bin rounded_bytes num_bytes s =
     (case find_in_bins a rounded_bytes s [nat bin ..< nat kNumBins] of Inl e \<Rightarrow> Inl e
      | Inr None \<Rightarrow> Inr (None, a)
      | Inr (Some (k, h)) \<Rightarrow>
          (case SplitFreeChunkFromBin a k h rounded_bytes num_bytes s of Inl e \<Rightarrow> Inl e
           | Inr a' \<Rightarrow> Inr (Some h, a')))"

text \<open>
  Modelled from the spec: the size of a new region. With the strategy same-as-requested it
  is the rounded request. With next-power-of-two it is the smallest power of two that
  covers the request, raised to the running growth counter, bounded by the configured cap
  unless the request itself is larger. In both cases it does not exceed what \<^verbatim>\<open>max_mem\<close>
  leaves, and it is a multiple of the minimum granularity.
\<close>

definition region_bytes :: "BFCArena \<Rightarrow> size_t \<Rightarrow> nat \<Rightarrow> nat" where
  "region_bytes a rounded_bytes available =
     (let want = (case a_arena_extend_strategy a of
                    kSameAsRequested \<Rightarrow> unat rounded_bytes
                  | kNextPowerOfTwo \<Rightarrow>
                      max (unat rounded_bytes)
                        (min (max (2 ^ floorlog 2 (unat rounded_bytes - 1))
                                  (unat (a_curr_region_allocation_bytes a)))
                             (nat (a_max_power_of_two_extend_bytes a))))
      in 256 * (min want available div 256))"

text \<open>
  The device allocator is outside the arena. One call of it is the function \<open>dev\<close> from the
  requested size to the base address it supplies, or \<open>None\<close> when it fails. A device
  allocator that answers with the null pointer has not supplied the memory either.
\<close>

type_synonym device = "size_t \<Rightarrow> uintptr_t option"

text \<open>
  Modelled from the spec: \<^verbatim>\<open>Extend\<close> (body missing), which returns a \<^verbatim>\<open>Status\<close>: \<open>None\<close> is the
  status of exhaustion (\<^verbatim>\<open>max_mem\<close> would be exceeded, or the device allocator cannot supply
  the region) and leaves the arena as it was. Otherwise the new region is added with one
  free chunk that spans it.
\<close>

definition Extend :: "BFCArena \<Rightarrow> device \<Rightarrow> size_t \<Rightarrow> failure + BFCArena option" where
  "Extend a dev rounded_bytes =
     (let held = nat (total_allocated_bytes (a_stats a));
          available = unat (a_memory_limit a) - held
      in if available < unat rounded_bytes then Inr None
         else let bytes = region_bytes a rounded_bytes available
              in case dev (of_nat bytes) of
                   None \<Rightarrow> Inr None
                 | Some mem \<Rightarrow>
                     if mem = 0 then Inr None else
                     (case AddAllocationRegion (a_regions a) mem (of_nat bytes)
                             (of_int (num_arena_extensions (a_stats a))) of Inl e \<Rightarrow> Inl e
                      | Inr rs \<Rightarrow>
                          let (h, a1) = AllocateChunk (a\<lparr>a_regions := rs\<rparr>)
                          in (case set_handle (a_regions a1) mem h of Inl e \<Rightarrow> Inl e
                              | Inr rs' \<Rightarrow>
                                  let c = new_Chunk\<lparr>chunk_size := of_nat bytes, ptr := mem\<rparr>;
                                      a2 = (put_chunk (a1\<lparr>a_regions := rs'\<rparr>) h c)
                                             \<lparr>a_curr_region_allocation_bytes :=
                                                 of_nat (min (2 * bytes)
                                                   (max bytes (nat (a_max_power_of_two_extend_bytes a)))),
                                              a_stats := (a_stats a)
                                                \<lparr>num_arena_extensions :=
                                                    num_arena_extensions (a_stats a) + 1,
                                                 total_allocated_bytes :=
                                                    total_allocated_bytes (a_stats a) + int bytes\<rparr>\<rparr>
                                  in (case InsertFreeChunkIntoBin a2 h of Inl e \<Rightarrow> Inl e
                                      | Inr a3 \<Rightarrow> Inr (Some a3)))))"

text \<open>
  Modelled from the spec: \<^verbatim>\<open>AllocateRawInternal\<close> (body missing). The result is the pointer
  returned, 0 being the null pointer, and the arena after the call. Size 0 returns null.
  The request is rounded, the bins are searched, and when no free chunk serves the request
  the arena is extended and the search is repeated once. On exhaustion null is returned.
  A request that cannot be rounded within \<^verbatim>\<open>size_t\<close> is more than any arena holds.
\<close>

definition AllocateRawInternal ::
  "BFCArena \<Rightarrow> device \<Rightarrow> size_t \<Rightarrow> Stream option \<Rightarrow> failure + (uintptr_t \<times> BFCArena)" where
  "AllocateRawInternal a dev num_bytes s =
     (if num_bytes = 0 then Inr (0, a)
      else if - kMinAllocationSize < num_bytes then Inr (0, a)
      else let rounded_bytes = RoundedBytes num_bytes;
               bin = BinNumForSize rounded_bytes
           in case FindChunkPtr a bin rounded_bytes num_bytes s of Inl e \<Rightarrow> Inl e
              | Inr (Some h, a') \<Rightarrow> Inr (ptr (a_chunks a' ! h), a')
              | Inr (None, _) \<Rightarrow>
                  (case Extend a dev rounded_bytes of Inl e \<Rightarrow> Inl e
                   | Inr None \<Rightarrow> Inr (0, a)
                   | Inr (Some a1) \<Rightarrow>
                       (case FindChunkPtr a1 bin rounded_bytes num_bytes s of Inl e \<Rightarrow> Inl e
                        | Inr (Some h, a2) \<Rightarrow> Inr (ptr (a_chunks a2 ! h), a2)
                        | Inr (None, _) \<Rightarrow> Inr (0, a1))))"

text \<open>
  Modelled from the spec: \<^verbatim>\<open>BFCArena::Alloc\<close> and \<^verbatim>\<open>StreamAwareArena::AllocOnStream\<close> (bodies
  missing). The base class \<^verbatim>\<open>IAllocator\<close> gives \<^verbatim>\<open>AllocOnStream(size, stream)\<close> the body
  \<^verbatim>\<open>return Alloc(size)\<close>, which an arena that is not stream aware inherits.
\<close>

definition Alloc :: "BFCArena \<Rightarrow> device \<Rightarrow> size_t \<Rightarrow> failure + (uintptr_t \<times> BFCArena)" where
  "Alloc a dev size_arg = AllocateRawInternal a dev size_arg None"

definition AllocOnStream ::
  "BFCArena \<Rightarrow> device \<Rightarrow> size_t \<Rightarrow> Stream option \<Rightarrow> failure + (uintptr_t \<times> BFCArena)" where
  "AllocOnStream a dev size_arg current_stream =
     (case a_arena_type a of
        BaseArena \<Rightarrow> Alloc a dev size_arg
      | StreamAwareArena \<Rightarrow> AllocateRawInternal a dev size_arg current_stream)"


text \<open>
  Modelled from the spec: \<^verbatim>\<open>Shrink\<close> (body missing): every region that contains no chunk in
  use is released, and the growth counter is reset to \<^verbatim>\<open>initial_growth_chunk_size_bytes\<close>;
  whether the first region (id 0) is eligible is a setting. The chunks that a region
  contains are the chunks whose base address lies in the region. When a region is released,
  the records of its chunks leave their bins and the pointer index and return to the pool
  of free records.
\<close>

definition chunks_in_region :: "BFCArena \<Rightarrow> uintptr_t \<Rightarrow> size_t \<Rightarrow> ChunkHandle list" where
  "chunks_in_region a region_ptr region_size =
     filter (\<lambda>h. h \<notin> set (a_free_chunks_list a)
                \<and> region_ptr \<le> ptr (a_chunks a ! h)
                \<and> ptr (a_chunks a ! h) < region_ptr + region_size)
       [0 ..< length (a_chunks a)]"

fun delete_chunks :: "BFCArena \<Rightarrow> ChunkHandle list \<Rightarrow> failure + BFCArena" where
  "delete_chunks a [] = Inr a"
| "delete_chunks a (h # hs) =
     (case RemoveFreeChunkFromBin a h of Inl e \<Rightarrow> Inl e
      | Inr a1 \<Rightarrow>
          (case DeleteChunk a1 h of Inl e \<Rightarrow> Inl e
           | Inr a2 \<Rightarrow> delete_chunks a2 hs))"

fun shrink_regions :: "BFCArena \<Rightarrow> (uintptr_t \<times> size_t) list \<Rightarrow> failure + BFCArena" where
  "shrink_regions a [] = Inr a"
| "shrink_regions a ((region_ptr, region_size) # rest) =
     (let hs = chunks_in_region a region_ptr region_size
      in if list_ex (\<lambda>h. in_use (a_chunks a ! h)) hs then shrink_regions a rest
         else (case delete_chunks a hs of Inl e \<Rightarrow> Inl e
               | Inr a1 \<Rightarrow>
                   (case RemoveAllocationRegion (a_regions a1) region_ptr of Inl e \<Rightarrow> Inl e
                    | Inr rs \<Rightarrow>
                        shrink_regions
                          (a1\<lparr>a_regions := rs,
                              a_stats := (a_stats a1)
                                \<lparr>num_arena_shrinkages := num_arena_shrinkages (a_stats a1) + 1,
                                 total_allocated_bytes :=
                                   total_allocated_bytes (a_stats a1) - uint region_size\<rparr>\<rparr>)
                          rest)))"

definition Shrink :: "BFCArena \<Rightarrow> failure + BFCArena" where
  "Shrink a =
     (let candidates =
            map (\<lambda>r. (r_ptr r, r_memory_size r))
              (filter (\<lambda>r. a_consider_first_allocation_region_for_shrinkage a \<or> r_id r \<noteq> 0)
                 (a_regions a))
      in case shrink_regions a candidates of Inl e \<Rightarrow> Inl e
         | Inr a' \<Rightarrow>
             Inr (a'\<lparr>a_curr_region_allocation_bytes :=
                        of_int (a_initial_growth_chunk_size_bytes a')\<rparr>))"

text \<open>
  Modelled from the spec: \<^verbatim>\<open>GetStats\<close> (body missing): a report for observation that does
  not change the arena.
\<close>

definition GetStats :: "BFCArena \<Rightarrow> AllocatorStats \<times> BFCArena" where
  "GetStats a = (a_stats a, a)"

text \<open>
  Modelled from the spec: the constructor of \<^verbatim>\<open>BFCArena\<close> (body missing). It sets up the
  \<^verbatim>\<open>kNumBins\<close> empty bins, whose sizes \<^verbatim>\<open>BinNumToSize\<close> gives, an empty chunk table and no
  region; the device allocator is not called.
\<close>

definition new_BFCArena ::
  "ArenaType \<Rightarrow> size_t \<Rightarrow> ArenaExtendStrategy \<Rightarrow> int \<Rightarrow> int \<Rightarrow> int \<Rightarrow> int \<Rightarrow>
   (size_t \<Rightarrow> size_t \<Rightarrow> bool) \<Rightarrow> BFCArena" where
  "new_BFCArena arena_type total_memory strategy initial_chunk_size max_dead_bytes
       initial_growth_chunk_size max_power_of_two_extend split_rule =
     \<lparr>a_arena_type = arena_type,
      a_memory_limit = total_memory,
      a_arena_extend_strategy = strategy,
      a_bins = map (\<lambda>b. \<lparr>bin_size = BinNumToSize (int b), free_chunks = []\<rparr>) [0 ..< nat kNumBins],
      a_curr_region_allocation_bytes =
        RoundedBytes (min total_memory (of_int initial_chunk_size)),
      a_regions = [],
      a_chunks = [],
      a_free_chunks_list = [],
      a_next_allocation_id = 1,
      a_stats = \<lparr>num_allocs = 0, num_reserves = 0, num_arena_extensions = 0,
                  num_arena_shrinkages = 0, bytes_in_use = 0, max_bytes_in_use = 0,
                  total_allocated_bytes = 0\<rparr>,
      a_reserved_chunks = [],
      a_initial_chunk_size_bytes = initial_chunk_size,
      a_max_dead_bytes_per_chunk = max_dead_bytes,
      a_initial_growth_chunk_size_bytes = initial_growth_chunk_size,
      a_max_power_of_two_extend_bytes = max_power_of_two_extend,
      a_consider_first_allocation_region_for_shrinkage = True,
      a_split_rule = split_rule\<rparr>"

text \<open>The defaults that the header declares: \<^verbatim>\<open>DEFAULT_INITIAL_CHUNK_SIZE_BYTES\<close> and so on.\<close>

definition DEFAULT_INITIAL_CHUNK_SIZE_BYTES :: int where
  "DEFAULT_INITIAL_CHUNK_SIZE_BYTES = 1 * 1024 * 1024"

definition DEFAULT_MAX_DEAD_BYTES_PER_CHUNK :: int where
  "DEFAULT_MAX_DEAD_BYTES_PER_CHUNK = 128 * 1024 * 1024"

definition DEFAULT_INITIAL_GROWTH_CHUNK_SIZE_BYTES :: int where
  "DEFAULT_INITIAL_GROWTH_CHUNK_SIZE_BYTES = 2 * 1024 * 1024"

definition DEFAULT_MAX_POWER_OF_TWO_EXTEND_BYTES :: int where
  "DEFAULT_MAX_POWER_OF_TWO_EXTEND_BYTES = 1024 * 1024 * 1024"

definition DEFAULT_MAX_MEM :: size_t where
  "DEFAULT_MAX_MEM = - 1"

text \<open>
  Modelled from the spec: the construction of an arena from an \<^verbatim>\<open>OrtArenaCfg\<close> (the code
  that does it is not among the sources). The configuration is checked with \<^verbatim>\<open>IsValid\<close>
  first and construction fails on an invalid one; a field at its sentinel (\<open>- 1\<close>, and 0 for
  \<^verbatim>\<open>max_mem\<close>) takes the default; strategy 0 is next-power-of-two and 1 is same-as-requested.
\<close>

definition CreateArena ::
  "OrtArenaCfg \<Rightarrow> ArenaType \<Rightarrow> (size_t \<Rightarrow> size_t \<Rightarrow> bool) \<Rightarrow> BFCArena option" where
  "CreateArena cfg arena_type split_rule =
     (if \<not> IsValid cfg then None
      else Some (new_BFCArena arena_type
             (if max_mem cfg = 0 then DEFAULT_MAX_MEM else max_mem cfg)
             (if sint (arena_extend_strategy cfg) = 1 then kSameAsRequested else kNextPowerOfTwo)
             (if sint (initial_chunk_size_bytes cfg) = - 1 then DEFAULT_INITIAL_CHUNK_SIZE_BYTES
              else sint (initial_chunk_size_bytes cfg))
             (if sint (max_dead_bytes_per_chunk cfg) = - 1 then DEFAULT_MAX_DEAD_BYTES_PER_CHUNK
              else sint (max_dead_bytes_per_chunk cfg))
             (if sint (initial_growth_chunk_size_bytes cfg) = - 1
              then DEFAULT_INITIAL_GROWTH_CHUNK_SIZE_BYTES
              else sint (initial_growth_chunk_size_bytes cfg))
             (if sint (max_power_of_two_extend_bytes cfg) = - 1
              then DEFAULT_MAX_POWER_OF_TWO_EXTEND_BYTES
              else sint (max_power_of_two_extend_bytes cfg))
             split_rule))"

subsection \<open>Conditions that the properties speak about\<close>






text \<open>The pointer is a block that \<^verbatim>\<open>Reserve\<close> has handed out and that has not been freed.\<close>

definition is_reserved :: "BFCArena \<Rightarrow> uintptr_t \<Rightarrow> bool" where
  "is_reserved a p \<longleftrightarrow> map_of (a_reserved_chunks a) p \<noteq> None"

text \<open>
  A handle is live when it addresses a record of the table that is not on the free list of
  unused records.
\<close>

definition live :: "BFCArena \<Rightarrow> ChunkHandle \<Rightarrow> bool" where
  "live a h \<longleftrightarrow> h < length (a_chunks a) \<and> h \<notin> set (a_free_chunks_list a)"

text \<open>Streams that have not synchronized with any other stream yet.\<close>

definition init_streams :: "nat \<Rightarrow> Stream" where
  "init_streams i = \<lparr>stream_ident = i, sync_id = 0, last_wait = []\<rparr>"

text \<open>
  The allocation state of a chunk: its allocation id and its stream tag. \<open>kept a a' X\<close> says
  that the step from \<open>a\<close> to \<open>a'\<close> leaves the allocation state of every record of \<open>a\<close>
  outside \<open>X\<close> as it was.
\<close>

definition alloc_state :: "Chunk \<Rightarrow> int \<times> nat option \<times> uint64_t" where
  "alloc_state c = (allocation_id c, stream c, stream_sync_id c)"

definition kept :: "BFCArena \<Rightarrow> BFCArena \<Rightarrow> ChunkHandle set \<Rightarrow> bool" where
  "kept a a' X \<longleftrightarrow>
     length (a_chunks a) \<le> length (a_chunks a')
   \<and> (\<forall>h < length (a_chunks a). h \<notin> X \<longrightarrow>
         alloc_state (a_chunks a' ! h) = alloc_state (a_chunks a ! h))"


text \<open>
  The relinking step of \<^verbatim>\<open>SplitChunk\<close>: the arena after the record \<open>hn\<close> has been filled
  in for the remainder, \<open>h\<close> has been cut to \<open>num_bytes\<close>, and the old successor of \<open>h\<close>
  points back to \<open>hn\<close>; the remainder is not yet in its bin.
\<close>

definition split_links ::
  "BFCArena \<Rightarrow> ChunkHandle \<Rightarrow> ChunkHandle \<Rightarrow> size_t \<Rightarrow> AllocationRegion list \<Rightarrow> BFCArena" where
  "split_links a1 h hn num_bytes rs =
     (let c = a_chunks a1 ! h;
          new_chunk = (a_chunks a1 ! hn)\<lparr>stream := stream c, stream_sync_id := stream_sync_id c,
              ptr := ptr c + num_bytes, chunk_size := chunk_size c - num_bytes,
              allocation_id := - 1, prev := h, next := next c\<rparr>;
          a2 = put_chunk (a1\<lparr>a_regions := rs\<rparr>) hn new_chunk;
          a3 = put_chunk a2 h (c\<lparr>chunk_size := num_bytes, next := hn\<rparr>)
      in if next c \<noteq> kInvalidChunkHandle
         then put_chunk a3 (next c) ((a_chunks a3 ! next c)\<lparr>prev := hn\<rparr>)
         else a3)"

text \<open>
  The last step of \<^verbatim>\<open>SplitFreeChunkFromBin\<close>: the chunk is marked in use for the request
  and the statistics are updated.
\<close>

definition mark_in_use :: "BFCArena \<Rightarrow> ChunkHandle \<Rightarrow> size_t \<Rightarrow> Stream option \<Rightarrow> BFCArena" where
  "mark_in_use a2 h num_bytes s =
     (let c' = a_chunks a2 ! h
      in (put_chunk a2 h
            (c'\<lparr>requested_size := num_bytes,
                allocation_id := a_next_allocation_id a2,
                stream := map_option stream_ident s,
                stream_sync_id := (case s of None \<Rightarrow> 0 | Some t \<Rightarrow> sync_id t)\<rparr>))
          \<lparr>a_next_allocation_id := a_next_allocation_id a2 + 1,
           a_stats := (a_stats a2)
             \<lparr>num_allocs := num_allocs (a_stats a2) + 1,
              bytes_in_use := bytes_in_use (a_stats a2) + uint (chunk_size c'),
              max_bytes_in_use :=
                max (max_bytes_in_use (a_stats a2))
                    (bytes_in_use (a_stats a2) + uint (chunk_size c'))\<rparr>\<rparr>)"

text \<open>
  The bins as \<^verbatim>\<open>std::set\<close> keeps them: there are \<^verbatim>\<open>kNumBins\<close> of them, each iterates in the
  order of the comparator, and the bin of index \<open>k\<close> holds free chunks of the table whose
  size belongs to the size class \<open>k\<close>.
\<close>

definition bins_ok :: "BFCArena \<Rightarrow> bool" where
  "bins_ok a \<longleftrightarrow>
     length (a_bins a) = nat kNumBins
   \<and> (\<forall>k < nat kNumBins.
        sorted_wrt (chunk_less a) (free_chunks (a_bins a ! k))
      \<and> (\<forall>h \<in> set (free_chunks (a_bins a ! k)).
            h < length (a_chunks a) \<and> \<not> in_use (a_chunks a ! h)
          \<and> BinNumForSize (chunk_size (a_chunks a ! h)) = int k))"

text \<open>
  A chunk fits a request of \<open>rounded_bytes\<close> on stream \<open>s\<close> when it is large enough and the
  stream may reuse it. A free chunk that can satisfy the request is a chunk in a bin that
  fits.
\<close>

definition fits :: "BFCArena \<Rightarrow> size_t \<Rightarrow> Stream option \<Rightarrow> ChunkHandle \<Rightarrow> bool" where
  "fits a rounded_bytes s h \<longleftrightarrow>
     rounded_bytes \<le> chunk_size (a_chunks a ! h) \<and> safe_to_use (a_chunks a ! h) s"

definition candidate :: "BFCArena \<Rightarrow> size_t \<Rightarrow> Stream option \<Rightarrow> ChunkHandle \<Rightarrow> bool" where
  "candidate a rounded_bytes s h \<longleftrightarrow>
     (\<exists>k < nat kNumBins. h \<in> set (free_chunks (a_bins a ! k))) \<and> fits a rounded_bytes s h"

text \<open>The key of the ordering: size first, base address second.\<close>

definition order_key :: "Chunk \<Rightarrow> nat \<times> nat" where
  "order_key c = (unat (chunk_size c), unat (ptr c))"

definition key_less :: "nat \<times> nat \<Rightarrow> nat \<times> nat \<Rightarrow> bool" where
  "key_less x y \<longleftrightarrow> fst x < fst y \<or> fst x = fst y \<and> snd x < snd y"

definition key_le :: "nat \<times> nat \<Rightarrow> nat \<times> nat \<Rightarrow> bool" where
  "key_le x y \<longleftrightarrow> key_less x y \<or> x = y"
subsection \<open>Concrete arenas and devices for the examples\<close>

text \<open>A split rule that splits whenever the chunk is larger than the rounded request.\<close>

definition split_always :: "size_t \<Rightarrow> size_t \<Rightarrow> bool" where
  "split_always sz rounded_bytes = True"

text \<open>A device allocator that supplies nothing, and one that answers with a fixed address.\<close>

definition device_none :: device where
  "device_none n = None"


text \<open>
  Arenas as the constructor builds them: with the defaults of the header, with \<^verbatim>\<open>max_mem\<close> of
  1024 bytes, and a stream-aware one whose first region has 8192 bytes.
\<close>

definition arena_default :: BFCArena where
  "arena_default =
     new_BFCArena BaseArena DEFAULT_MAX_MEM kNextPowerOfTwo DEFAULT_INITIAL_CHUNK_SIZE_BYTES
       DEFAULT_MAX_DEAD_BYTES_PER_CHUNK DEFAULT_INITIAL_GROWTH_CHUNK_SIZE_BYTES
       DEFAULT_MAX_POWER_OF_TWO_EXTEND_BYTES split_always"


definition arena_small :: "ArenaType \<Rightarrow> BFCArena" where
  "arena_small t =
     new_BFCArena t DEFAULT_MAX_MEM kNextPowerOfTwo 8192
       DEFAULT_MAX_DEAD_BYTES_PER_CHUNK DEFAULT_INITIAL_GROWTH_CHUNK_SIZE_BYTES
       DEFAULT_MAX_POWER_OF_TWO_EXTEND_BYTES split_always"





text \<open>
  A stream-aware arena whose only chunk is free and carries the tag of stream 0 with sync
  id 0, and the streams 0 and 1 after stream 1 has synchronized with stream 0 once.
\<close>

definition arena_tagged :: BFCArena where
  "arena_tagged = arena_default
     \<lparr>a_arena_type := StreamAwareArena,
      a_bins := (a_bins arena_default)[1 := \<lparr>bin_size = BinNumToSize 1, free_chunks = [0]\<rparr>],
      a_regions := [\<lparr>r_ptr = 4096, r_memory_size = 512, r_end_ptr = 4608, r_id = 0,
                      r_handles = [0, kInvalidChunkHandle]\<rparr>],
      a_chunks := [\<lparr>chunk_size = 512, requested_size = 512, allocation_id = - 1, ptr = 4096,
                     prev = kInvalidChunkHandle, next = kInvalidChunkHandle,
                     bin_num = 1, stream = Some 0, stream_sync_id = 0\<rparr>],
      a_next_allocation_id := 2\<rparr>"

definition streams_synced :: "nat \<Rightarrow> Stream" where
  "streams_synced = run_history init_streams [(0, 1)]"

definition arena_tagged_reused :: BFCArena where
  "arena_tagged_reused =
     (case AllocOnStream arena_tagged device_none 512 (Some (streams_synced 1)) of
        Inr (r, a) \<Rightarrow> a
      | Inl e \<Rightarrow> arena_tagged)"

text \<open>
  One region of 3328 bytes at address 4096 with free chunks of 512, 1024 and 1024 bytes at
  increasing addresses, kept apart by chunks of 256 bytes that are in use.
\<close>

definition used_chunk :: "uintptr_t \<Rightarrow> int \<Rightarrow> ChunkHandle \<Rightarrow> ChunkHandle \<Rightarrow> Chunk" where
  "used_chunk p i hp hn =
     \<lparr>chunk_size = 256, requested_size = 256, allocation_id = i, ptr = p, prev = hp, next = hn,
      bin_num = kInvalidBinNum, stream = None, stream_sync_id = 0\<rparr>"

definition free_chunk :: "uintptr_t \<Rightarrow> size_t \<Rightarrow> int \<Rightarrow> ChunkHandle \<Rightarrow> ChunkHandle \<Rightarrow> Chunk" where
  "free_chunk p sz b hp hn =
     \<lparr>chunk_size = sz, requested_size = 0, allocation_id = - 1, ptr = p, prev = hp, next = hn,
      bin_num = b, stream = None, stream_sync_id = 0\<rparr>"

definition arena_three :: BFCArena where
  "arena_three = arena_default
     \<lparr>a_bins := (a_bins arena_default)
         [1 := \<lparr>bin_size = BinNumToSize 1, free_chunks = [0]\<rparr>,
          2 := \<lparr>bin_size = BinNumToSize 2, free_chunks = [2, 4]\<rparr>],
      a_regions := [\<lparr>r_ptr = 4096, r_memory_size = 3328, r_end_ptr = 7424, r_id = 0,
                      r_handles = [0, kInvalidChunkHandle, 1, 2, kInvalidChunkHandle,
                        kInvalidChunkHandle, kInvalidChunkHandle, 3, 4, kInvalidChunkHandle,
                        kInvalidChunkHandle, kInvalidChunkHandle, 5]\<rparr>],
      a_chunks := [free_chunk 4096 512 1 kInvalidChunkHandle 1,
                   used_chunk 4608 1 0 2,
                   free_chunk 4864 1024 2 1 3,
                   used_chunk 5888 2 2 4,
                   free_chunk 6144 1024 2 3 5,
                   used_chunk 7168 3 4 kInvalidChunkHandle],
      a_next_allocation_id := 7\<rparr>"

definition arena_three_served :: BFCArena where
  "arena_three_served =
     (case AllocateRawInternal arena_three device_none 600 None of
        Inr (r, a) \<Rightarrow> a
      | Inl e \<Rightarrow> arena_three)"
section \<open>Properties\<close>

subsection \<open>Logarithms and size classes\<close>

lemma unat_shift_right_one: "unat (drop_bit (Suc 0) (n :: 'a::len word)) = unat n div 2"
proof -
  have "unat (drop_bit (Suc 0) n) = drop_bit (Suc 0) (unat n)" by (rule unat_drop_bit_eq)
  also have "\<dots> = unat n div 2" by (simp add: drop_bit_eq_div)
  finally show ?thesis .
qed

lemma Log2FloorNonZeroSlow_loop_floorlog:
  "Log2FloorNonZeroSlow_loop r n = r + int (floorlog 2 (unat n))"
proof (induction r n rule: Log2FloorNonZeroSlow_loop.induct)
  case (1 r n)
  show ?case
  proof (cases "0 < n")
    case True
    then have pos: "0 < unat n" by (simp add: unat_gt_0 word_greater_zero_iff)
    have "Log2FloorNonZeroSlow_loop r n = Log2FloorNonZeroSlow_loop (r + 1) (drop_bit 1 n)"
      using True by (subst Log2FloorNonZeroSlow_loop.simps) simp
    also have "\<dots> = r + 1 + int (floorlog 2 (unat (drop_bit 1 n)))"
      using 1 True by simp
    also have "\<dots> = r + int (floorlog 2 (unat n))"
      using pos by (subst (2) compute_floorlog) (simp add: unat_shift_right_one)
    finally show ?thesis .
  next
    case False
    then have "n = 0" by (simp add: word_greater_zero_iff)
    then show ?thesis
      by (subst Log2FloorNonZeroSlow_loop.simps) (simp add: floorlog_def)
  qed
qed

lemma Log2FloorNonZeroSlow_floorlog:
  "Log2FloorNonZeroSlow n = int (floorlog 2 (unat n)) - 1"
  by (simp add: Log2FloorNonZeroSlow_def Log2FloorNonZeroSlow_loop_floorlog)

lemma floorlog_floor_log2:
  assumes "0 < m"
  shows "int (floorlog 2 m) - 1 = \<lfloor>log 2 (real m)\<rfloor>"
proof -
  have "1 \<le> real m" using assms by simp
  then have "0 \<le> log 2 (real m)" by simp
  then have "0 \<le> \<lfloor>log 2 (real m)\<rfloor>" by simp
  then show ?thesis using assms by (simp add: floorlog_def)
qed

text \<open>A nonzero value below \<open>2 ^ k\<close> has its top bit where the scans stop.\<close>

lemma nat_top_bit:
  assumes "m < 2 ^ Suc k"
  shows "bit m k \<longleftrightarrow> 2 ^ k \<le> (m :: nat)"
proof -
  have "m div 2 ^ k < 2" using assms by (simp add: less_mult_imp_div_less)
  then have "m div 2 ^ k = 0 \<or> m div 2 ^ k = 1" by linarith
  moreover have "m div 2 ^ k = 0 \<longleftrightarrow> m < 2 ^ k" by (simp add: div_eq_0_iff)
  ultimately show ?thesis by (auto simp: bit_iff_odd)
qed

lemma floorlog_top_bit:
  assumes "2 ^ k \<le> m" "m < 2 ^ Suc k"
  shows "floorlog 2 m = Suc k"
proof (rule antisym)
  show "floorlog 2 m \<le> Suc k" using assms(2) by (simp add: floorlog_le_iff)
  show "Suc k \<le> floorlog 2 m" using assms(1) by (simp add: floorlog_ge_SucI)
qed

lemma clz_from_floorlog:
  assumes "unat n < 2 ^ k" "n \<noteq> 0"
  shows "clz_from k n + floorlog 2 (unat n) = k"
  using assms
proof (induction k)
  case 0
  then show ?case by (simp add: unat_eq_0)
next
  case (Suc k)
  have top: "bit n k \<longleftrightarrow> 2 ^ k \<le> unat n"
    using nat_top_bit [OF Suc.prems(1)] by (simp add: bit_unsigned_iff)
  show ?case
  proof (cases "bit n k")
    case True
    then have "floorlog 2 (unat n) = Suc k"
      using top Suc.prems(1) by (simp add: floorlog_top_bit)
    then show ?thesis using True by simp
  next
    case False
    then have "unat n < 2 ^ k" using top by simp
    then show ?thesis using False Suc.IH Suc.prems(2) by simp
  qed
qed

lemma bsr_from_floorlog:
  assumes "unat n < 2 ^ k" "n \<noteq> 0"
  shows "bsr_from k n = Some (floorlog 2 (unat n) - 1)"
  using assms
proof (induction k)
  case 0
  then show ?case by (simp add: unat_eq_0)
next
  case (Suc k)
  have top: "bit n k \<longleftrightarrow> 2 ^ k \<le> unat n"
    using nat_top_bit [OF Suc.prems(1)] by (simp add: bit_unsigned_iff)
  show ?case
  proof (cases "bit n k")
    case True
    then have "floorlog 2 (unat n) = Suc k"
      using top Suc.prems(1) by (simp add: floorlog_top_bit)
    then show ?thesis using True by simp
  next
    case False
    then have "unat n < 2 ^ k" using top by simp
    then show ?thesis using False Suc.IH Suc.prems(2) by simp
  qed
qed

lemma bsr_from_zero: "bsr_from k 0 = None"
  by (induction k) simp_all

lemma floorlog_word_bounds:
  fixes n :: "'a::len word"
  assumes "n \<noteq> 0"
  shows "1 \<le> floorlog 2 (unat n)" "floorlog 2 (unat n) \<le> LENGTH('a)"
proof -
  have "0 < unat n" using assms by (simp add: unat_gt_0)
  then have "floorlog 2 (unat n) \<noteq> 0" by (simp add: floorlog_eq_zero_iff)
  then show "1 \<le> floorlog 2 (unat n)" by simp
  have "unat n < 2 ^ LENGTH('a)" by (rule unsigned_less)
  then show "floorlog 2 (unat n) \<le> LENGTH('a)" by (simp add: floorlog_le_iff)
qed

lemma xor_63_int:
  assumes "k \<le> 63"
  shows "(63 :: int) XOR int k = 63 - int k"
proof -
  have k: "take_bit 6 (int k) = int k"
    using assms by (simp add: take_bit_int_eq_self)
  have m: "(mask 6 :: int) = 63" by (simp add: mask_eq_exp_minus_1)
  have "mask 6 XOR take_bit 6 (int k) = take_bit 6 ((- 1) XOR int k)"
    by (simp only: take_bit_xor take_bit_minus_one_eq_mask)
  also have "\<dots> = take_bit 6 (NOT (int k))"
    by (simp only: bit.xor_one_left)
  also have "\<dots> = mask 6 - take_bit 6 (int k)"
    by (rule take_bit_not_eq_mask_diff)
  finally show ?thesis unfolding k m .
qed

lemma floorlog_div_power2:
  assumes "2 ^ k \<le> m"
  shows "floorlog 2 (m div 2 ^ k) + k = floorlog 2 m"
  using assms
proof (induction k arbitrary: m)
  case 0
  then show ?case by simp
next
  case (Suc k)
  have pos: "0 < m" using Suc.prems by (metis gr0I not_le zero_less_numeral zero_less_power)
  have half: "2 ^ k \<le> m div 2" using Suc.prems by simp
  have "m div 2 ^ Suc k = (m div 2) div 2 ^ k" by (simp add: div_mult2_eq)
  then have "floorlog 2 (m div 2 ^ Suc k) + k = floorlog 2 (m div 2)"
    using Suc.IH [OF half] by simp
  moreover have "floorlog 2 m = floorlog 2 (m div 2) + 1"
    using pos by (subst compute_floorlog) simp
  ultimately show ?case by simp
qed

lemma Log2FloorNonZero_floorlog:
  assumes "n \<noteq> 0"
  shows "Log2FloorNonZero n = int (floorlog 2 (unat n)) - 1"
proof -
  have lt: "unat n < 2 ^ 64" using unsigned_less [of n] by simp
  have sum: "clz_from 64 n + floorlog 2 (unat n) = 64"
    by (rule clz_from_floorlog [OF lt assms])
  have ge: "1 \<le> floorlog 2 (unat n)" by (rule floorlog_word_bounds(1) [OF assms])
  have "clz_from 64 n \<le> 63" using sum ge by linarith
  then have "Log2FloorNonZero n = 63 - int (clz_from 64 n)"
    by (simp add: Log2FloorNonZero_def builtin_clzll_def xor_63_int)
  then show ?thesis using sum by linarith
qed

lemma sint_small_32:
  assumes "k < 2 ^ 31"
  shows "sint (of_nat k :: 32 word) = int k"
proof -
  have "k < 2 ^ 32" using assms by simp
  then have "take_bit 32 k = k" by (simp add: take_bit_nat_eq_self)
  then have "sint (of_nat k :: 32 word) = signed_take_bit 31 (int k)"
    by (simp add: sint_uint unsigned_of_nat)
  also have "\<dots> = int k"
    using assms by (intro signed_take_bit_int_eq_self) simp_all
  finally show ?thesis .
qed

lemma BitScanReverse64_floorlog:
  assumes "n \<noteq> 0"
  shows "BitScanReverse64 index n = (True, of_nat (floorlog 2 (unat n) - 1))"
proof -
  have lt: "unat n < 2 ^ 64" using unsigned_less [of n] by simp
  show ?thesis
    by (simp add: BitScanReverse64_def bsr_from_floorlog [OF lt assms])
qed

lemma BitScanReverse_floorlog:
  assumes "n \<noteq> 0"
  shows "BitScanReverse index n = (True, of_nat (floorlog 2 (unat n) - 1))"
proof -
  have lt: "unat n < 2 ^ 32" using unsigned_less [of n] by simp
  show ?thesis
    by (simp add: BitScanReverse_def bsr_from_floorlog [OF lt assms])
qed

lemma BitScanReverse_zero: "BitScanReverse index 0 = (False, index)"
  by (simp add: BitScanReverse_def bsr_from_zero)

lemma Log2FloorNonZero_win64_floorlog:
  assumes "n \<noteq> 0"
  shows "Log2FloorNonZero_win64 index0 n = int (floorlog 2 (unat n)) - 1"
proof -
  have b: "1 \<le> floorlog 2 (unat n)" "floorlog 2 (unat n) \<le> 64"
    using floorlog_word_bounds [OF assms] by simp_all
  then have "floorlog 2 (unat n) - 1 < 2 ^ 31" by simp
  then have "sint (of_nat (floorlog 2 (unat n) - 1) :: 32 word) = int (floorlog 2 (unat n) - 1)"
    by (rule sint_small_32)
  then show ?thesis
    using b by (simp add: Log2FloorNonZero_win64_def BitScanReverse64_floorlog [OF assms])
qed

lemma unat_high_half: "unat (ucast (drop_bit 32 (n :: 64 word)) :: 32 word) = unat n div 2 ^ 32"
proof -
  have "unat (drop_bit 32 n) = drop_bit 32 (unat n)" by (rule unat_drop_bit_eq)
  also have "\<dots> = unat n div 2 ^ 32" by (simp add: drop_bit_eq_div)
  finally have d: "unat (drop_bit 32 n) = unat n div 2 ^ 32" .
  have "unat n < 2 ^ 64" using unsigned_less [of n] by simp
  then have "unat n div 2 ^ 32 < 2 ^ 32" by (simp add: less_mult_imp_div_less)
  then show ?thesis
    by (simp add: unsigned_ucast_eq d take_bit_nat_eq_self)
qed

lemma unat_low_half:
  "unat (ucast (drop_bit 32 (push_bit 32 (n :: 64 word))) :: 32 word) = unat n mod 2 ^ 32"
proof -
  have "drop_bit 32 (push_bit 32 n) = take_bit 32 n"
    by (rule bit_word_eqI) (auto simp: bit_simps)
  then have "unat (ucast (drop_bit 32 (push_bit 32 n)) :: 32 word)
                = take_bit 32 (unat (take_bit 32 n))"
    by (simp only: unsigned_ucast_eq) simp
  also have "\<dots> = take_bit 32 (take_bit 32 (unat n))"
    by (simp only: unsigned_take_bit_eq)
  also have "\<dots> = unat n mod 2 ^ 32"
    by (simp only: take_bit_take_bit take_bit_eq_mod) simp
  finally show ?thesis .
qed

lemma Log2FloorNonZero_win32_floorlog:
  assumes "n \<noteq> 0"
  shows "Log2FloorNonZero_win32 index0 n = int (floorlog 2 (unat n)) - 1"
proof (cases "(ucast (drop_bit 32 n) :: 32 word) = 0")
  case True
  then have "unat n div 2 ^ 32 = 0" using unat_high_half [of n] by simp
  then have small: "unat n < 2 ^ 32" by (simp add: div_eq_0_iff)
  define low where "low = (ucast (drop_bit 32 (push_bit 32 n)) :: 32 word)"
  have low: "unat low = unat n" using small by (simp add: low_def unat_low_half)
  then have "low \<noteq> 0" using assms by (metis unat_eq_0)
  then have scan: "BitScanReverse index0 low = (True, of_nat (floorlog 2 (unat n) - 1))"
    using BitScanReverse_floorlog [of low index0] low by simp
  have b: "1 \<le> floorlog 2 (unat n)" "floorlog 2 (unat n) \<le> 64"
    using floorlog_word_bounds [OF assms] by simp_all
  then have "floorlog 2 (unat n) - 1 < 2 ^ 31" by simp
  then have "sint (of_nat (floorlog 2 (unat n) - 1) :: 32 word) = int (floorlog 2 (unat n) - 1)"
    by (rule sint_small_32)
  then show ?thesis
    using True scan b
    by (simp add: Log2FloorNonZero_win32_def BitScanReverse_zero low_def [symmetric])
next
  case False
  define high where "high = (ucast (drop_bit 32 n) :: 32 word)"
  have hz: "high \<noteq> 0" using False by (simp add: high_def)
  have hu: "unat high = unat n div 2 ^ 32" by (simp add: high_def unat_high_half)
  have "0 < unat high" using hz by (simp add: unat_gt_0)
  then have big: "2 ^ 32 \<le> unat n" using hu
    by (metis div_less linorder_not_less less_numeral_extra(3))
  have fl: "floorlog 2 (unat high) + 32 = floorlog 2 (unat n)"
    using floorlog_div_power2 [OF big] hu by simp
  have hb: "1 \<le> floorlog 2 (unat high)" "floorlog 2 (unat high) \<le> 32"
    using floorlog_word_bounds [OF hz] by simp_all
  have scan: "BitScanReverse index0 high = (True, of_nat (floorlog 2 (unat high) - 1))"
    by (rule BitScanReverse_floorlog [OF hz])
  have "(of_nat (floorlog 2 (unat high) - 1) :: 32 word) + 32
          = of_nat (floorlog 2 (unat high) - 1 + 32)" by simp
  moreover have "floorlog 2 (unat high) - 1 + 32 < 2 ^ 31" using hb by simp
  ultimately have "sint ((of_nat (floorlog 2 (unat high) - 1) :: 32 word) + 32)
          = int (floorlog 2 (unat high) - 1 + 32)"
    using sint_small_32 by metis
  then show ?thesis
    using scan hb fl
    by (simp add: Log2FloorNonZero_win32_def high_def [symmetric])
qed

text \<open>
  Claim C9. For every nonzero \<open>n\<close> the loop of \<open>Log2FloorNonZeroSlow\<close> returns
  \<open>\<lfloor>log\<^sub>2 n\<rfloor>\<close>, and each intrinsic-based body of \<open>Log2FloorNonZero\<close> (GCC, 64-bit
  Windows and 32-bit Windows, whatever the uninitialised \<open>index\<close> held) returns the same
  value; for \<open>n = 0\<close> the loop returns \<open>-1\<close>.
\<close>

theorem Log2FloorNonZeroSlow_agrees:
  "(n \<noteq> 0 \<longrightarrow>
      Log2FloorNonZeroSlow n = \<lfloor>log 2 (real (unat n))\<rfloor>
    \<and> Log2FloorNonZero n = Log2FloorNonZeroSlow n
    \<and> Log2FloorNonZero_win64 index0 n = Log2FloorNonZeroSlow n
    \<and> Log2FloorNonZero_win32 index0 n = Log2FloorNonZeroSlow n)
   \<and> Log2FloorNonZeroSlow 0 = - 1"
proof (intro conjI impI)
  show "Log2FloorNonZeroSlow 0 = - 1"
    by (simp add: Log2FloorNonZeroSlow_floorlog floorlog_def)
next
  assume nz: "n \<noteq> 0"
  then have "0 < unat n" by (simp add: unat_gt_0)
  then show "Log2FloorNonZeroSlow n = \<lfloor>log 2 (real (unat n))\<rfloor>"
    using floorlog_floor_log2 by (simp add: Log2FloorNonZeroSlow_floorlog)
  show "Log2FloorNonZero n = Log2FloorNonZeroSlow n"
    using nz by (simp add: Log2FloorNonZero_floorlog Log2FloorNonZeroSlow_floorlog)
  show "Log2FloorNonZero_win64 index0 n = Log2FloorNonZeroSlow n"
    using nz by (simp add: Log2FloorNonZero_win64_floorlog Log2FloorNonZeroSlow_floorlog)
  show "Log2FloorNonZero_win32 index0 n = Log2FloorNonZeroSlow n"
    using nz by (simp add: Log2FloorNonZero_win32_floorlog Log2FloorNonZeroSlow_floorlog)
qed

theorem Log2FloorNonZeroSlow_agrees_witness:
  "(1000 :: uint64_t) \<noteq> 0
   \<and> Log2FloorNonZeroSlow 1000 = \<lfloor>log 2 (real (unat (1000 :: uint64_t)))\<rfloor>
   \<and> Log2FloorNonZeroSlow 1000 = 9
   \<and> Log2FloorNonZero 1000 = 9
   \<and> Log2FloorNonZero_win64 7 1000 = 9
   \<and> Log2FloorNonZero_win32 7 1000 = 9"
proof -
  have nz: "(1000 :: uint64_t) \<noteq> 0" by simp
  have nine: "Log2FloorNonZeroSlow 1000 = 9" by code_simp
  show ?thesis
    using Log2FloorNonZeroSlow_agrees [of 1000 7] nz nine by simp
qed

lemma unat_shift_right_8: "unat (drop_bit 8 (x :: size_t)) = unat x div 256"
proof -
  have "unat (drop_bit 8 x) = drop_bit 8 (unat x)" by (rule unat_drop_bit_eq)
  also have "\<dots> = unat x div 256" by (simp add: drop_bit_eq_div)
  finally show ?thesis .
qed

lemma unat_max_256: "unat (max (b :: size_t) 256) = max (unat b) 256"
  by (simp add: max_def word_le_nat_alt)

lemma BinNumForSize_floorlog:
  "BinNumForSize b = min 20 (int (floorlog 2 (max (unat b) 256)) - 9)"
proof -
  define x where "x = max b 256"
  have ux: "unat x = max (unat b) 256" by (simp add: x_def unat_max_256)
  then have big: "2 ^ 8 \<le> unat x" by simp
  have uv: "unat (drop_bit 8 x) = unat x div 2 ^ 8" by (simp add: unat_shift_right_8)
  have "0 < unat x div 2 ^ 8" using big by (simp add: div_greater_zero_iff)
  then have nz: "drop_bit 8 x \<noteq> 0" using uv by (metis less_numeral_extra(3) unat_eq_0)
  have "floorlog 2 (unat (drop_bit 8 x)) + 8 = floorlog 2 (unat x)"
    using floorlog_div_power2 [OF big] uv by simp
  then have "Log2FloorNonZero (drop_bit 8 x) = int (floorlog 2 (unat x)) - 9"
    using Log2FloorNonZero_floorlog [OF nz] by linarith
  then show ?thesis
    by (simp add: BinNumForSize_def kMinAllocationBits_def kNumBins_def x_def [symmetric] ux)
qed

lemma floor_log2_div_256:
  assumes "256 \<le> m"
  shows "\<lfloor>log 2 (real m / 256)\<rfloor> = int (floorlog 2 m) - 9"
proof -
  have pos: "0 < m" using assms by simp
  have "log 2 (real m / 256) = log 2 (real m) - log 2 256"
    using pos by (simp add: log_divide)
  also have "log 2 (256 :: real) = 8"
  proof -
    have "log 2 ((2 :: real) ^ 8) = 8" by (subst log_nat_power) simp_all
    then show ?thesis by simp
  qed
  finally have "\<lfloor>log 2 (real m / 256)\<rfloor> = \<lfloor>log 2 (real m)\<rfloor> - 8"
    by simp
  then show ?thesis using floorlog_floor_log2 [OF pos] by simp
qed

text \<open>
  Claim C2. For every byte count \<open>b\<close> the bin index is
  \<open>min 20 \<lfloor>log\<^sub>2 (max b 256 / 256)\<rfloor>\<close>.
\<close>

theorem BinNumForSize_formula:
  "BinNumForSize b = min 20 \<lfloor>log 2 (real (max (unat b) 256) / 256)\<rfloor>"
proof -
  have "256 \<le> max (unat b) 256" by simp
  then show ?thesis
    by (simp only: BinNumForSize_floorlog floor_log2_div_256)
qed

subsection \<open>Configuration validity\<close>

lemma IsValid_iff:
  "IsValid cfg \<longleftrightarrow>
     sint (arena_extend_strategy cfg) \<in> {- 1, 0, 1}
   \<and> - 1 \<le> sint (initial_chunk_size_bytes cfg)
   \<and> - 1 \<le> sint (max_dead_bytes_per_chunk cfg)
   \<and> - 1 \<le> sint (initial_growth_chunk_size_bytes cfg)
   \<and> - 1 \<le> sint (max_power_of_two_extend_bytes cfg)"
proof -
  have "- 1 \<le> sint (arena_extend_strategy cfg) \<and> sint (arena_extend_strategy cfg) \<le> 1
        \<longleftrightarrow> sint (arena_extend_strategy cfg) \<in> {- 1, 0, 1}"
    by auto
  moreover have "IsValid cfg \<longleftrightarrow>
     (- 1 \<le> sint (arena_extend_strategy cfg) \<and> sint (arena_extend_strategy cfg) \<le> 1)
   \<and> - 1 \<le> sint (initial_chunk_size_bytes cfg)
   \<and> - 1 \<le> sint (max_dead_bytes_per_chunk cfg)
   \<and> - 1 \<le> sint (initial_growth_chunk_size_bytes cfg)
   \<and> - 1 \<le> sint (max_power_of_two_extend_bytes cfg)"
    by (simp add: IsValid_def word_sle_eq)
  ultimately show ?thesis by blast
qed

text \<open>
  Claim C8. A configuration is valid exactly when the extend strategy is one of \<open>-1\<close>, \<open>0\<close>,
  \<open>1\<close> and each of the four byte counts is at least \<open>-1\<close>. Construction of an arena from
  an invalid configuration fails; construction takes no device allocator, so nothing is
  allocated before the check, and the arena built from a valid configuration holds no
  region and no chunk yet.
\<close>

theorem IsValid_characterisation:
  "(IsValid cfg \<longleftrightarrow>
       sint (arena_extend_strategy cfg) \<in> {- 1, 0, 1}
     \<and> - 1 \<le> sint (initial_chunk_size_bytes cfg)
     \<and> - 1 \<le> sint (max_dead_bytes_per_chunk cfg)
     \<and> - 1 \<le> sint (initial_growth_chunk_size_bytes cfg)
     \<and> - 1 \<le> sint (max_power_of_two_extend_bytes cfg))
   \<and> (\<not> IsValid cfg \<longrightarrow> CreateArena cfg arena_type split_rule = None)
   \<and> (IsValid cfg \<longrightarrow>
        (\<exists>a. CreateArena cfg arena_type split_rule = Some a
           \<and> a_regions a = [] \<and> a_chunks a = [] \<and> a_reserved_chunks a = []))"
proof (intro conjI impI)
  show "IsValid cfg \<longleftrightarrow>
       sint (arena_extend_strategy cfg) \<in> {- 1, 0, 1}
     \<and> - 1 \<le> sint (initial_chunk_size_bytes cfg)
     \<and> - 1 \<le> sint (max_dead_bytes_per_chunk cfg)
     \<and> - 1 \<le> sint (initial_growth_chunk_size_bytes cfg)
     \<and> - 1 \<le> sint (max_power_of_two_extend_bytes cfg)"
    by (rule IsValid_iff)
next
  assume "\<not> IsValid cfg"
  then show "CreateArena cfg arena_type split_rule = None"
    by (simp add: CreateArena_def)
next
  assume "IsValid cfg"
  then show "\<exists>a. CreateArena cfg arena_type split_rule = Some a
           \<and> a_regions a = [] \<and> a_chunks a = [] \<and> a_reserved_chunks a = []"
    by (simp add: CreateArena_def new_BFCArena_def)
qed

theorem IsValid_characterisation_witness:
  "IsValid \<lparr>max_mem = 0, arena_extend_strategy = 1, initial_chunk_size_bytes = - 1,
            max_dead_bytes_per_chunk = 4096, initial_growth_chunk_size_bytes = - 1,
            max_power_of_two_extend_bytes = - 1\<rparr>
   \<and> CreateArena \<lparr>max_mem = 0, arena_extend_strategy = 1, initial_chunk_size_bytes = - 1,
            max_dead_bytes_per_chunk = 4096, initial_growth_chunk_size_bytes = - 1,
            max_power_of_two_extend_bytes = - 1\<rparr> BaseArena (\<lambda>sz rb. True) \<noteq> None
   \<and> \<not> IsValid \<lparr>max_mem = 0, arena_extend_strategy = 2, initial_chunk_size_bytes = - 1,
            max_dead_bytes_per_chunk = - 1, initial_growth_chunk_size_bytes = - 1,
            max_power_of_two_extend_bytes = - 1\<rparr>
   \<and> CreateArena \<lparr>max_mem = 0, arena_extend_strategy = 2, initial_chunk_size_bytes = - 1,
            max_dead_bytes_per_chunk = - 1, initial_growth_chunk_size_bytes = - 1,
            max_power_of_two_extend_bytes = - 1\<rparr> BaseArena (\<lambda>sz rb. True) = None
   \<and> \<not> IsValid \<lparr>max_mem = 0, arena_extend_strategy = 0, initial_chunk_size_bytes = - 2,
            max_dead_bytes_per_chunk = - 1, initial_growth_chunk_size_bytes = - 1,
            max_power_of_two_extend_bytes = - 1\<rparr>"
proof -
  let ?good = "\<lparr>max_mem = 0, arena_extend_strategy = 1, initial_chunk_size_bytes = - 1,
            max_dead_bytes_per_chunk = 4096, initial_growth_chunk_size_bytes = - 1,
            max_power_of_two_extend_bytes = - 1\<rparr> :: OrtArenaCfg"
  let ?bad = "\<lparr>max_mem = 0, arena_extend_strategy = 2, initial_chunk_size_bytes = - 1,
            max_dead_bytes_per_chunk = - 1, initial_growth_chunk_size_bytes = - 1,
            max_power_of_two_extend_bytes = - 1\<rparr> :: OrtArenaCfg"
  let ?neg = "\<lparr>max_mem = 0, arena_extend_strategy = 0, initial_chunk_size_bytes = - 2,
            max_dead_bytes_per_chunk = - 1, initial_growth_chunk_size_bytes = - 1,
            max_power_of_two_extend_bytes = - 1\<rparr> :: OrtArenaCfg"
  have g: "IsValid ?good"
    using IsValid_characterisation [of ?good BaseArena "\<lambda>sz rb. True"] by simp
  have b: "\<not> IsValid ?bad"
    using IsValid_characterisation [of ?bad BaseArena "\<lambda>sz rb. True"] by simp
  have n: "\<not> IsValid ?neg"
    using IsValid_characterisation [of ?neg BaseArena "\<lambda>sz rb. True"] by simp
  have "CreateArena ?good BaseArena (\<lambda>sz rb. True) \<noteq> None"
    using IsValid_characterisation [of ?good BaseArena "\<lambda>sz rb. True"] g by auto
  moreover have "CreateArena ?bad BaseArena (\<lambda>sz rb. True) = None"
    using IsValid_characterisation [of ?bad BaseArena "\<lambda>sz rb. True"] b by blast
  ultimately show ?thesis using g b n by blast
qed

subsection \<open>Allocation regions\<close>

lemma kMinAllocationSize_256: "kMinAllocationSize = 256"
  by (simp add: kMinAllocationSize_def kMinAllocationBits_def)

lemma new_AllocationRegion_Inr:
  assumes "new_AllocationRegion p ms rid = Inr r"
  shows "unat ms mod 256 = 0" "r_ptr r = p" "r_memory_size r = ms"
    "r_end_ptr r = p + ms" "length (r_handles r) = unat ms div 256"
proof -
  have m: "ms mod 256 = 0"
    using assms by (auto simp: new_AllocationRegion_def kMinAllocationSize_256 split: if_splits)
  then have "unat (ms mod 256) = 0" by simp
  then show mult: "unat ms mod 256 = 0" by (simp add: unat_mod)
  have r: "r = \<lparr>r_ptr = p, r_memory_size = ms, r_end_ptr = p + ms, r_id = rid,
      r_handles = replicate (unat ((ms + 256 - 1) div 256)) kInvalidChunkHandle\<rparr>"
    using assms m by (simp add: new_AllocationRegion_def kMinAllocationSize_256 Let_def)
  show "r_ptr r = p" "r_memory_size r = ms" "r_end_ptr r = p + ms" by (simp_all add: r)
  have lt: "unat ms < 2 ^ 64" using unsigned_less [of ms] by simp
  have "256 dvd unat ms" using mult by (rule mod_0_imp_dvd)
  then obtain k where k: "unat ms = 256 * k" by (rule dvdE)
  then have "256 * k < 256 * 2 ^ 56" using lt by simp
  then have "k < 2 ^ 56" by simp
  then have "256 * k + 255 < 256 * 2 ^ 56" by linarith
  then have "unat ms + 255 < 2 ^ 64" using k by simp
  then have "unat (ms + 255) = unat ms + 255"
    by (simp add: unat_word_ariths)
  then have "unat ((ms + 255) div 256) = (unat ms + 255) div 256"
    by (simp add: unat_div)
  also have "\<dots> = unat ms div 256" unfolding k by simp
  finally show "length (r_handles r) = unat ms div 256" by (simp add: r add.commute)
qed

lemma new_AllocationRegion_Inl:
  "new_AllocationRegion p ms rid = Inl e \<Longrightarrow> unat ms mod 256 \<noteq> 0 \<and> e = EnforceFailed"
proof -
  assume a: "new_AllocationRegion p ms rid = Inl e"
  then have "ms mod 256 \<noteq> 0" "e = EnforceFailed"
    by (auto simp: new_AllocationRegion_def kMinAllocationSize_256 Let_def split: if_splits)
  moreover have "unat (ms mod 256) = unat ms mod 256" by (simp add: unat_mod)
  ultimately show ?thesis by (metis unat_eq_0)
qed

lemma in_region_offset:
  fixes p base ms :: "64 word"
  assumes "base \<le> p" "p < base + ms"
  shows "unat (p - base) < unat ms"
proof -
  have "unat (p - base) = unat p - unat base" using assms(1) by (simp add: unat_sub)
  moreover have "unat p < unat (base + ms)" using assms(2) by (simp add: word_less_nat_alt)
  moreover have "unat (base + ms) \<le> unat base + unat ms" by (simp add: unat_word_ariths)
  moreover have "unat base \<le> unat p" using assms(1) by (simp add: word_le_nat_alt)
  ultimately show ?thesis by linarith
qed

lemma sint_ucast_small:
  fixes x :: "64 word"
  assumes "unat x < 2 ^ 31"
  shows "sint (ucast x :: 32 word) = int (unat x)"
proof -
  have "(ucast x :: 32 word) = of_nat (unat x)" by simp
  then show ?thesis using sint_small_32 [OF assms] by simp
qed

text \<open>
  Up to \<open>2 ^ 39\<close> bytes the slot number fits the \<^verbatim>\<open>int\<close> that \<^verbatim>\<open>IndexFor\<close> returns, and
  every pointer inside the region is mapped to a slot of the array.
\<close>

lemma IndexFor_in_bounds:
  assumes new: "new_AllocationRegion base ms rid = Inr r"
    and small: "unat ms \<le> 2 ^ 39"
    and lo: "base \<le> p" and hi: "p < base + ms"
  shows "\<exists>i. IndexFor r p = Inr i \<and> 0 \<le> i \<and> i < int (unat ms div 256)
           \<and> nat i < length (r_handles r)
           \<and> region_get_handle r p = Inr (r_handles r ! nat i)"
proof -
  note f = new_AllocationRegion_Inr [OF new]
  define off where "off = unat (p - base)"
  have off: "off < unat ms" using in_region_offset [OF lo hi] by (simp add: off_def)
  have q: "off div 256 < unat ms div 256"
  proof -
    have "256 dvd unat ms" using f(1) by (rule mod_0_imp_dvd)
    then obtain k where k: "unat ms = 256 * k" by (rule dvdE)
    then have "off < k * 256" using off by simp
    then have "off div 256 < k" by (rule less_mult_imp_div_less)
    then show ?thesis using k by simp
  qed
  have "unat ms div 256 \<le> 2 ^ 31" using small by simp
  then have q31: "off div 256 < 2 ^ 31" using q by linarith
  have sh: "unat (drop_bit 8 (p - base)) = off div 256"
    by (simp add: unat_shift_right_8 off_def)
  have idx: "IndexFor r p = Inr (int (off div 256))"
    using lo hi sint_ucast_small [of "drop_bit 8 (p - base)"] sh q31
    by (simp add: IndexFor_def f kMinAllocationBits_def)
  have slot: "handle_slot r (int (off div 256)) = Inr (off div 256)"
    using q by (simp add: handle_slot_def f)
  show ?thesis
    using idx slot q by (simp add: region_get_handle_def f)
qed

lemma IndexFor_outside:
  assumes "p < r_ptr r \<or> r_ptr r + r_memory_size r \<le> p"
  shows "IndexFor r p = Inl EnforceFailed" "region_get_handle r p = Inl EnforceFailed"
    "region_set_handle r p h = Inl EnforceFailed" "region_erase r p = Inl EnforceFailed"
proof -
  show i: "IndexFor r p = Inl EnforceFailed"
    using assms by (auto simp: IndexFor_def)
  show "region_get_handle r p = Inl EnforceFailed" by (simp add: region_get_handle_def i)
  show "region_set_handle r p h = Inl EnforceFailed" by (simp add: region_set_handle_def i)
  show "region_erase r p = Inl EnforceFailed"
    by (simp add: region_erase_def region_set_handle_def i)
qed

text \<open>
  Claim C10 at a region of \<open>2 ^ 40\<close> bytes based at address \<open>65536\<close>. The length is a
  multiple of 256, so the constructor accepts it, and the pointer \<open>65536 + 2 ^ 39\<close> passes
  both checks of \<^verbatim>\<open>IndexFor\<close>. Its slot number \<open>2 ^ 31\<close> does not fit the \<^verbatim>\<open>int\<close> that
  \<^verbatim>\<open>IndexFor\<close> returns: the result is \<open>- 2 ^ 31\<close>, and \<^verbatim>\<open>get_handle\<close>, \<^verbatim>\<open>set_handle\<close>
  and \<^verbatim>\<open>erase\<close> index the array \<^verbatim>\<open>handles_\<close> in front of its first element.
\<close>

theorem IndexFor_narrowing_out_of_bounds:
  "(case new_AllocationRegion 65536 1099511627776 0 of
      Inl e \<Rightarrow> False
    | Inr r \<Rightarrow>
        r_memory_size r mod kMinAllocationSize = 0
      \<and> length (r_handles r) = 4294967296
      \<and> r_ptr r \<le> 549755879424
      \<and> 549755879424 < r_ptr r + r_memory_size r
      \<and> IndexFor r 549755879424 = Inr (- 2147483648)
      \<and> region_get_handle r 549755879424 = Inl OutOfBounds
      \<and> region_set_handle r 549755879424 h = Inl OutOfBounds
      \<and> region_erase r 549755879424 = Inl OutOfBounds)"
proof -
  define r where "r = \<lparr>r_ptr = (65536 :: uintptr_t), r_memory_size = (1099511627776 :: size_t),
      r_end_ptr = (1099511693312 :: uintptr_t), r_id = (0 :: int64_t),
      r_handles = replicate 4294967296 kInvalidChunkHandle\<rparr>"
  have new: "new_AllocationRegion 65536 1099511627776 0 = Inr r"
    by (simp add: new_AllocationRegion_def kMinAllocationSize_256 r_def)
  have sh: "drop_bit 8 ((549755879424 :: uintptr_t) - 65536) = 2147483648" by simp
  have tr: "sint (ucast (2147483648 :: 64 word) :: 32 word) = - 2147483648" by simp
  have idx: "IndexFor r 549755879424 = Inr (- 2147483648)"
    unfolding IndexFor_def kMinAllocationBits_def
    by (simp add: r_def sh tr)
  have slot: "handle_slot r (- 2147483648) = Inl OutOfBounds"
    by (simp add: handle_slot_def)
  have "r_memory_size r mod kMinAllocationSize = 0"
    by (simp add: r_def kMinAllocationSize_256)
  moreover have "length (r_handles r) = 4294967296" by (simp add: r_def)
  moreover have "r_ptr r \<le> 549755879424" by (simp add: r_def)
  moreover have "549755879424 < r_ptr r + r_memory_size r" by (simp add: r_def)
  moreover have "region_get_handle r 549755879424 = Inl OutOfBounds"
    by (simp add: region_get_handle_def idx slot)
  moreover have "region_set_handle r 549755879424 h = Inl OutOfBounds"
    by (simp add: region_set_handle_def idx slot)
  moreover have "region_erase r 549755879424 = Inl OutOfBounds"
    by (simp add: region_erase_def region_set_handle_def idx slot)
  ultimately show ?thesis using idx by (simp add: new)
qed

subsection \<open>The allocation contract\<close>

text \<open>
  Claim C5. A request for 0 bytes returns the null pointer as an ordinary result and
  leaves the arena as it was, whatever the device allocator would have answered: no region
  is added and the device allocator is not consulted.
\<close>

theorem Alloc_zero:
  "Alloc a dev 0 = Inr (0, a)"
  by (simp add: Alloc_def AllocateRawInternal_def)








subsection \<open>Elementary facts about the table, the bins and the pointer index\<close>

lemma put_chunk_simps [simp]:
  "a_chunks (put_chunk a h c) = (a_chunks a)[h := c]"
  "a_regions (put_chunk a h c) = a_regions a"
  "a_bins (put_chunk a h c) = a_bins a"
  "a_free_chunks_list (put_chunk a h c) = a_free_chunks_list a"
  "a_reserved_chunks (put_chunk a h c) = a_reserved_chunks a"
  "a_next_allocation_id (put_chunk a h c) = a_next_allocation_id a"
  "a_stats (put_chunk a h c) = a_stats a"
  "a_split_rule (put_chunk a h c) = a_split_rule a"
  "a_arena_type (put_chunk a h c) = a_arena_type a"
  by (simp_all add: put_chunk_def)

lemma put_free_chunks_simps [simp]:
  "a_chunks (put_free_chunks a k fs) = a_chunks a"
  "a_regions (put_free_chunks a k fs) = a_regions a"
  "a_bins (put_free_chunks a k fs) = (a_bins a)[k := (a_bins a ! k)\<lparr>free_chunks := fs\<rparr>]"
  "a_free_chunks_list (put_free_chunks a k fs) = a_free_chunks_list a"
  "a_reserved_chunks (put_free_chunks a k fs) = a_reserved_chunks a"
  "a_next_allocation_id (put_free_chunks a k fs) = a_next_allocation_id a"
  "a_stats (put_free_chunks a k fs) = a_stats a"
  "a_split_rule (put_free_chunks a k fs) = a_split_rule a"
  "a_arena_type (put_free_chunks a k fs) = a_arena_type a"
  by (simp_all add: put_free_chunks_def)

lemma nth_update_if:
  "k < length xs \<Longrightarrow> xs[h := x] ! k = (if h = k then x else xs ! k)"
  by (cases "h = k") simp_all

lemma ChunkFromHandle_Inr:
  "ChunkFromHandle a h = Inr c \<longleftrightarrow> h < length (a_chunks a) \<and> c = a_chunks a ! h"
  by (auto simp: ChunkFromHandle_def)

lemma ChunkFromHandle_Inl:
  "ChunkFromHandle a h = Inl e \<longleftrightarrow> \<not> h < length (a_chunks a) \<and> e = EnforceFailed"
  by (auto simp: ChunkFromHandle_def)








subsection \<open>What the steps of a free may change\<close>













subsection \<open>Evaluating the operations on concrete arenas\<close>


lemma arena_default_fields:
  "length (a_bins arena_default) = 21"
  "a_regions arena_default = []"
  "a_chunks arena_default = []"
  "a_free_chunks_list arena_default = []"
  "a_reserved_chunks arena_default = []"
  "a_arena_type arena_default = BaseArena"
  "a_split_rule arena_default = split_always"
  by (simp_all add: arena_default_def new_BFCArena_def kNumBins_def)

lemma arena_default_bin:
  "k < 21 \<Longrightarrow> a_bins arena_default ! k = \<lparr>bin_size = BinNumToSize (int k), free_chunks = []\<rparr>"
  by (simp add: arena_default_def new_BFCArena_def kNumBins_def)



lemma BinNumForSize_values:
  "BinNumForSize 256 = 0" "BinNumForSize 512 = 1" "BinNumForSize 768 = 1"
  "BinNumForSize 1024 = 2"
  by (simp_all add: BinNumForSize_floorlog compute_floorlog)

lemma RoundedBytes_values:
  "RoundedBytes 256 = 256" "RoundedBytes 512 = 512" "RoundedBytes 600 = 768"
  "RoundedBytes 1024 = 1024"
  by (simp_all add: RoundedBytes_def kMinAllocationSize_256)

lemma find_in_bins_upt:
  "i < j \<Longrightarrow> find_in_bins a rb s [i ..< j] =
     (case find_in_bin a rb s (free_chunks (a_bins a ! i)) of Inl e \<Rightarrow> Inl e
      | Inr (Some h) \<Rightarrow> Inr (Some (i, h))
      | Inr None \<Rightarrow> find_in_bins a rb s [Suc i ..< j])"
  by (simp add: upt_conv_Cons)

lemmas eval_defs =
  ChunkFromHandle_def in_use_def kInvalidBinNum_def kInvalidChunkHandle_def
  get_handle_def set_handle_def erase_def RegionFor_def upper_bound_def Comparator_def
  region_get_handle_def region_set_handle_def IndexFor_def handle_slot_def kMinAllocationBits_def
  InsertFreeChunkIntoBin_def RemoveFreeChunkFromBin_def RemoveFreeChunkIterFromBin_def
  bin_slot_def chunk_less_def ChunkComparator_def set_erase_def put_chunk_def put_free_chunks_def
  BinNumForSize_values RoundedBytes_values Let_def










subsection \<open>The contract of \<^verbatim>\<open>Free\<close>\<close>










subsection \<open>The steps of a split, one by one\<close>

lemma SplitChunk_unfold:
  assumes "SplitChunk a h num_bytes = Inr a'"
  obtains hn a1 rs where "AllocateChunk a = (hn, a1)"
    "h < length (a_chunks a1)" "hn < length (a_chunks a1)"
    "\<not> in_use (a_chunks a1 ! h)" "bin_num (a_chunks a1 ! h) = kInvalidBinNum"
    "set_handle (a_regions a1) (ptr (a_chunks a1 ! h) + num_bytes) hn = Inr rs"
    "next (a_chunks a1 ! h) \<noteq> kInvalidChunkHandle \<Longrightarrow> next (a_chunks a1 ! h) < length (a_chunks a1)"
    "InsertFreeChunkIntoBin (split_links a1 h hn num_bytes rs) hn = Inr a'"
proof -
  obtain hn a1 where al: "AllocateChunk a = (hn, a1)" by (cases "AllocateChunk a")
  have s: "SplitChunk a h num_bytes =
     (case ChunkFromHandle a1 h of Inl e \<Rightarrow> Inl e
         | Inr c \<Rightarrow>
             if in_use c \<or> bin_num c \<noteq> kInvalidBinNum then Inl EnforceFailed
             else case ChunkFromHandle a1 hn of Inl e \<Rightarrow> Inl e
                  | Inr nc \<Rightarrow>
                      (case set_handle (a_regions a1) (ptr c + num_bytes) hn of
                         Inl e \<Rightarrow> Inl e
                       | Inr rs \<Rightarrow>
                           let h_neighbor = next c;
                               new_chunk = nc\<lparr>stream := stream c,
                                              stream_sync_id := stream_sync_id c,
                                              ptr := ptr c + num_bytes,
                                              chunk_size := chunk_size c - num_bytes,
                                              allocation_id := - 1,
                                              prev := h,
                                              next := h_neighbor\<rparr>;
                               a2 = put_chunk (a1\<lparr>a_regions := rs\<rparr>) hn new_chunk;
                               a3 = put_chunk a2 h (c\<lparr>chunk_size := num_bytes, next := hn\<rparr>)
                           in if h_neighbor \<noteq> kInvalidChunkHandle
                              then (case ChunkFromHandle a3 h_neighbor of Inl e \<Rightarrow> Inl e
                                    | Inr c_neighbor \<Rightarrow>
                                        InsertFreeChunkIntoBin
                                          (put_chunk a3 h_neighbor (c_neighbor\<lparr>prev := hn\<rparr>))
                                          hn)
                              else InsertFreeChunkIntoBin a3 hn))"
    by (simp add: SplitChunk_def al)
  from assms [unfolded s] obtain c where c: "ChunkFromHandle a1 h = Inr c"
    by (cases "ChunkFromHandle a1 h") auto
  from assms [unfolded s] c have en: "\<not> in_use c" "bin_num c = kInvalidBinNum"
    by (auto split: if_splits)
  from assms [unfolded s] c en obtain nc where nc: "ChunkFromHandle a1 hn = Inr nc"
    by (cases "ChunkFromHandle a1 hn") auto
  from assms [unfolded s] c en nc obtain rs
    where rs: "set_handle (a_regions a1) (ptr c + num_bytes) hn = Inr rs"
    by (cases "set_handle (a_regions a1) (ptr c + num_bytes) hn") auto
  have ceq: "c = a_chunks a1 ! h" "h < length (a_chunks a1)"
    using c by (simp_all add: ChunkFromHandle_Inr)
  have nceq: "nc = a_chunks a1 ! hn" "hn < length (a_chunks a1)"
    using nc by (simp_all add: ChunkFromHandle_Inr)
  show ?thesis
  proof (cases "next c = kInvalidChunkHandle")
    case True
    have "InsertFreeChunkIntoBin (split_links a1 h hn num_bytes rs) hn = Inr a'"
      using assms [unfolded s] c en nc rs True
      by (simp add: split_links_def Let_def ceq(1) [symmetric] nceq(1) [symmetric])
    then show ?thesis using that al ceq nceq en rs True by auto
  next
    case False
    let ?a3 = "put_chunk (put_chunk (a1\<lparr>a_regions := rs\<rparr>) hn
                 (nc\<lparr>stream := stream c, stream_sync_id := stream_sync_id c,
                       ptr := ptr c + num_bytes, chunk_size := chunk_size c - num_bytes,
                       allocation_id := - 1, prev := h, next := next c\<rparr>))
               h (c\<lparr>chunk_size := num_bytes, next := hn\<rparr>)"
    from assms [unfolded s] c en nc rs False obtain cn
      where cn: "ChunkFromHandle ?a3 (next c) = Inr cn"
      by (cases "ChunkFromHandle ?a3 (next c)") (auto simp: Let_def)
    have cneq: "cn = a_chunks ?a3 ! next c" "next c < length (a_chunks a1)"
      using cn by (simp_all add: ChunkFromHandle_Inr)
    have "InsertFreeChunkIntoBin (split_links a1 h hn num_bytes rs) hn = Inr a'"
      using assms [unfolded s] c en nc rs False cn
      by (simp add: split_links_def Let_def ceq(1) [symmetric] nceq(1) [symmetric] cneq(1))
    then show ?thesis using that al ceq nceq en rs False cneq(2) by auto
  qed
qed

lemma split_links_fields [simp]:
  "a_free_chunks_list (split_links a1 h hn n rs) = a_free_chunks_list a1"
  "a_bins (split_links a1 h hn n rs) = a_bins a1"
  "a_regions (split_links a1 h hn n rs) = rs"
  "length (a_chunks (split_links a1 h hn n rs)) = length (a_chunks a1)"
  "a_reserved_chunks (split_links a1 h hn n rs) = a_reserved_chunks a1"
  by (simp_all add: split_links_def Let_def)

lemma InsertFreeChunkIntoBin_fields:
  assumes "InsertFreeChunkIntoBin a h = Inr a'"
  shows "a_free_chunks_list a' = a_free_chunks_list a" "a_regions a' = a_regions a"
    "length (a_chunks a') = length (a_chunks a)" "a_reserved_chunks a' = a_reserved_chunks a"
  using assms
  by (auto simp: InsertFreeChunkIntoBin_def Let_def split: sum.splits if_splits)

lemma RemoveFreeChunkIterFromBin_fields:
  assumes "RemoveFreeChunkIterFromBin a k h = Inr a'"
  shows "a_free_chunks_list a' = a_free_chunks_list a" "a_regions a' = a_regions a"
    "length (a_chunks a') = length (a_chunks a)" "a_reserved_chunks a' = a_reserved_chunks a"
  using assms
  by (auto simp: RemoveFreeChunkIterFromBin_def Let_def split: sum.splits if_splits)

subsection \<open>Reuse across streams\<close>

lemma kept_refl: "kept a a X"
  by (simp add: kept_def)

lemma kept_trans:
  assumes "kept a b X" "kept b c Y"
  shows "kept a c (X \<union> Y)"
  using assms unfolding kept_def by (metis UnCI le_trans less_le_trans)

lemma kept_mono: "kept a b X \<Longrightarrow> X \<subseteq> Y \<Longrightarrow> kept a b Y"
  unfolding kept_def by blast

lemma kept_put_chunk_same:
  assumes "alloc_state c = alloc_state (a_chunks a ! h)"
  shows "kept a (put_chunk a h c) X"
  using assms by (auto simp: kept_def nth_update_if)

lemma kept_put_chunk: "kept a (put_chunk a h c) {h}"
  by (auto simp: kept_def nth_update_if)

lemma kept_chunks_eq: "a_chunks a' = a_chunks a \<Longrightarrow> kept a a' X"
  by (simp add: kept_def)

lemma InsertFreeChunkIntoBin_kept:
  assumes "InsertFreeChunkIntoBin a h = Inr a'"
  shows "kept a a' X"
proof -
  obtain k fs b where
    a': "a' = put_free_chunks (put_chunk a h ((a_chunks a ! h)\<lparr>bin_num := b\<rparr>)) k fs"
    using assms
    by (auto simp: InsertFreeChunkIntoBin_def ChunkFromHandle_def Let_def
        split: sum.splits if_splits)
  have "kept a (put_chunk a h ((a_chunks a ! h)\<lparr>bin_num := b\<rparr>)) X"
    by (rule kept_put_chunk_same) (simp add: alloc_state_def)
  then show ?thesis by (simp add: a' kept_def)
qed

lemma RemoveFreeChunkIterFromBin_kept:
  assumes "RemoveFreeChunkIterFromBin a k h = Inr a'"
  shows "kept a a' X"
proof -
  obtain fs where
    a': "a' = put_chunk (put_free_chunks a k fs) h ((a_chunks a ! h)\<lparr>bin_num := kInvalidBinNum\<rparr>)"
    using assms
    by (auto simp: RemoveFreeChunkIterFromBin_def ChunkFromHandle_def split: if_splits)
  have "kept (put_free_chunks a k fs) a' X"
    unfolding a' by (rule kept_put_chunk_same) (simp add: alloc_state_def)
  then show ?thesis by (simp add: kept_def)
qed

lemma AllocateChunk_kept:
  assumes "AllocateChunk a = (h, a1)"
  shows "kept a a1 X" "h \<in> set (a_free_chunks_list a) \<or> h = length (a_chunks a)"
    "set (a_free_chunks_list a1) \<subseteq> set (a_free_chunks_list a)"
  using assms
  by (auto simp: AllocateChunk_def kept_def nth_append split: list.splits)

lemma kept_fresh:
  assumes "kept a a' (insert hn X)" "hn \<in> set (a_free_chunks_list a) \<or> hn = length (a_chunks a)"
  shows "kept a a' (X \<union> set (a_free_chunks_list a))"
  using assms unfolding kept_def by auto

lemma split_links_kept: 
  assumes "h < length (a_chunks a1)"
  shows "kept a1 (split_links a1 h hn n rs) {hn}"
  using assms
  by (auto simp: kept_def split_links_def Let_def nth_update_if alloc_state_def)

lemma SplitChunk_kept:
  assumes "SplitChunk a h num_bytes = Inr a'"
  shows "kept a a' (set (a_free_chunks_list a))"
    "set (a_free_chunks_list a') \<subseteq> set (a_free_chunks_list a)"
proof -
  from assms obtain hn a1 rs where al: "AllocateChunk a = (hn, a1)"
    and hb: "h < length (a_chunks a1)"
    and ins: "InsertFreeChunkIntoBin (split_links a1 h hn num_bytes rs) hn = Inr a'"
    by (rule SplitChunk_unfold)
  note k1 = AllocateChunk_kept [OF al]
  show "set (a_free_chunks_list a') \<subseteq> set (a_free_chunks_list a)"
    using InsertFreeChunkIntoBin_fields(1) [OF ins] k1(3) by simp
  have "kept a a' ({} \<union> ({hn} \<union> {}))"
    using kept_trans [OF k1(1) kept_trans [OF split_links_kept [OF hb]
          InsertFreeChunkIntoBin_kept [OF ins]]] .
  then have "kept a a' (insert hn {})" by simp
  from kept_fresh [OF this k1(2)] show "kept a a' (set (a_free_chunks_list a))" by simp
qed

lemma find_in_bin_Some:
  assumes "find_in_bin a rb s hs = Inr (Some h)"
  shows "h \<in> set hs \<and> h < length (a_chunks a) \<and> \<not> in_use (a_chunks a ! h)
       \<and> rb \<le> chunk_size (a_chunks a ! h) \<and> safe_to_use (a_chunks a ! h) s"
  using assms
  by (induction hs) (auto simp: ChunkFromHandle_def split: if_splits)

lemma find_in_bins_Some:
  assumes "find_in_bins a rb s ks = Inr (Some (k, h))"
  shows "k \<in> set ks \<and> h \<in> set (free_chunks (a_bins a ! k)) \<and> h < length (a_chunks a)
       \<and> \<not> in_use (a_chunks a ! h)
       \<and> rb \<le> chunk_size (a_chunks a ! h) \<and> safe_to_use (a_chunks a ! h) s"
  using assms
proof (induction ks)
  case Nil
  then show ?case by simp
next
  case (Cons k' ks)
  show ?case
  proof (cases "find_in_bin a rb s (free_chunks (a_bins a ! k'))")
    case (Inl e)
    then show ?thesis using Cons.prems by simp
  next
    case (Inr r)
    show ?thesis
    proof (cases r)
      case None
      then show ?thesis using Cons Inr by simp
    next
      case (Some h')
      then have "k' = k" "h' = h" using Cons.prems Inr by simp_all
      then show ?thesis using find_in_bin_Some [of a rb s _ h] Inr Some by simp
    qed
  qed
qed

lemma SplitFreeChunkFromBin_unfold:
  assumes "SplitFreeChunkFromBin a k h rb n s = Inr a'"
  obtains a1 a2 where "RemoveFreeChunkIterFromBin a k h = Inr a1"
    "h < length (a_chunks a1)" "h < length (a_chunks a2)"
    "if rb < chunk_size (a_chunks a1 ! h) \<and> a_split_rule a1 (chunk_size (a_chunks a1 ! h)) rb
     then SplitChunk a1 h rb = Inr a2 else a2 = a1"
    "a' = mark_in_use a2 h n s"
proof -
  from assms obtain a1 where r: "RemoveFreeChunkIterFromBin a k h = Inr a1"
    by (auto simp: SplitFreeChunkFromBin_def split: sum.splits)
  from assms r obtain c where c: "ChunkFromHandle a1 h = Inr c"
    by (auto simp: SplitFreeChunkFromBin_def split: sum.splits)
  from assms r c obtain a2 where
    sp: "(if rb < chunk_size c \<and> a_split_rule a1 (chunk_size c) rb
          then SplitChunk a1 h rb else Inr a1) = Inr a2"
    by (auto simp: SplitFreeChunkFromBin_def split: sum.splits)
  from assms r c sp obtain c' where c': "ChunkFromHandle a2 h = Inr c'"
    by (auto simp: SplitFreeChunkFromBin_def split: sum.splits)
  have "a' = mark_in_use a2 h n s"
    using assms r c sp c'
    by (simp add: SplitFreeChunkFromBin_def mark_in_use_def ChunkFromHandle_Inr)
  then show ?thesis
    using that [of a1 a2] r c sp c' by (auto simp: ChunkFromHandle_Inr split: if_splits)
qed

lemma mark_in_use_fields [simp]:
  "a_free_chunks_list (mark_in_use a h n s) = a_free_chunks_list a"
  "a_bins (mark_in_use a h n s) = a_bins a"
  "a_regions (mark_in_use a h n s) = a_regions a"
  "length (a_chunks (mark_in_use a h n s)) = length (a_chunks a)"
  "a_reserved_chunks (mark_in_use a h n s) = a_reserved_chunks a"
  by (simp_all add: mark_in_use_def Let_def)

lemma mark_in_use_kept: "kept a (mark_in_use a h n s) {h}"
  by (auto simp: kept_def mark_in_use_def Let_def nth_update_if)

lemma SplitFreeChunkFromBin_kept:
  assumes "SplitFreeChunkFromBin a k h rb n s = Inr a'"
  shows "kept a a' (insert h (set (a_free_chunks_list a)))"
    "set (a_free_chunks_list a') \<subseteq> set (a_free_chunks_list a)"
proof -
  from assms obtain a1 a2 where r: "RemoveFreeChunkIterFromBin a k h = Inr a1"
    and sp: "if rb < chunk_size (a_chunks a1 ! h) \<and> a_split_rule a1 (chunk_size (a_chunks a1 ! h)) rb
     then SplitChunk a1 h rb = Inr a2 else a2 = a1"
    and a': "a' = mark_in_use a2 h n s"
    by (rule SplitFreeChunkFromBin_unfold)
  note f1 = RemoveFreeChunkIterFromBin_fields [OF r]
  have k12: "kept a1 a2 (set (a_free_chunks_list a1))
           \<and> set (a_free_chunks_list a2) \<subseteq> set (a_free_chunks_list a1)"
    using sp SplitChunk_kept [of a1 h rb a2] by (auto simp: kept_refl split: if_splits)
  show "set (a_free_chunks_list a') \<subseteq> set (a_free_chunks_list a)"
    using k12 f1 a' by simp
  have "kept a a' ({} \<union> (set (a_free_chunks_list a1) \<union> {h}))"
    unfolding a'
    using kept_trans [OF RemoveFreeChunkIterFromBin_kept [OF r]
        kept_trans [OF conjunct1 [OF k12] mark_in_use_kept]] .
  then show "kept a a' (insert h (set (a_free_chunks_list a)))"
    by (simp add: f1 Un_commute)
qed

lemma FindChunkPtr_None: "FindChunkPtr a bin rb n s = Inr (None, a') \<Longrightarrow> a' = a"
  by (auto simp: FindChunkPtr_def split: sum.splits option.splits)

lemma FindChunkPtr_kept:
  assumes "FindChunkPtr a bin rb n s = Inr (Some h, a')"
  shows "h < length (a_chunks a)" "safe_to_use (a_chunks a ! h) s"
    "kept a a' (insert h (set (a_free_chunks_list a)))"
    "set (a_free_chunks_list a') \<subseteq> set (a_free_chunks_list a)"
proof -
  from assms obtain k where f: "find_in_bins a rb s [nat bin ..< nat kNumBins] = Inr (Some (k, h))"
    and sp: "SplitFreeChunkFromBin a k h rb n s = Inr a'"
    by (auto simp: FindChunkPtr_def split: sum.splits option.splits)
  show "h < length (a_chunks a)" "safe_to_use (a_chunks a ! h) s"
    using find_in_bins_Some [OF f] by simp_all
  show "kept a a' (insert h (set (a_free_chunks_list a)))"
    "set (a_free_chunks_list a') \<subseteq> set (a_free_chunks_list a)"
    using SplitFreeChunkFromBin_kept [OF sp] by simp_all
qed

lemma Extend_kept:
  assumes "Extend a dev rb = Inr (Some a')"
  shows "kept a a' (set (a_free_chunks_list a))"
    "set (a_free_chunks_list a') \<subseteq> set (a_free_chunks_list a)"
proof -
  from assms obtain rs0 h a1 rs c st cr a2 where
    al: "AllocateChunk (a\<lparr>a_regions := rs0\<rparr>) = (h, a1)"
    and a2: "a2 = (put_chunk (a1\<lparr>a_regions := rs\<rparr>) h c)
                    \<lparr>a_curr_region_allocation_bytes := cr, a_stats := st\<rparr>"
    and ins: "InsertFreeChunkIntoBin a2 h = Inr a'"
    by (auto simp: Extend_def Let_def split: if_splits option.splits sum.splits prod.splits)
  note k1 = AllocateChunk_kept [OF al]
  have k0: "kept a (a\<lparr>a_regions := rs0\<rparr>) {}" by (simp add: kept_def)
  have k2: "kept a1 a2 {h}" by (auto simp: a2 kept_def nth_update_if)
  have "kept a a' ({} \<union> ({} \<union> ({h} \<union> {})))"
    using kept_trans [OF k0 kept_trans [OF k1(1) kept_trans [OF k2
            InsertFreeChunkIntoBin_kept [OF ins]]]] .
  then have "kept (a\<lparr>a_regions := rs0\<rparr>) a' (insert h {})" by (simp add: kept_def)
  from kept_fresh [OF this k1(2)] show "kept a a' (set (a_free_chunks_list a))"
    by (simp add: kept_def)
  show "set (a_free_chunks_list a') \<subseteq> set (a_free_chunks_list a)"
    using InsertFreeChunkIntoBin_fields(1) [OF ins] k1(3) by (simp add: a2)
qed

lemma in_use_alloc_state:
  "alloc_state c' = alloc_state c \<Longrightarrow> in_use c' = in_use c"
  "alloc_state c' = alloc_state c \<Longrightarrow> safe_to_use c' s = safe_to_use c s"
  by (auto simp: alloc_state_def in_use_def safe_to_use_def split: option.splits)

lemma FindChunkPtr_reuse:
  assumes "FindChunkPtr a bin rb n s = Inr (r, a')"
    "live a h" "\<not> in_use (a_chunks a ! h)" "in_use (a_chunks a' ! h)"
  shows "safe_to_use (a_chunks a ! h) s"
proof (cases r)
  case None
  then show ?thesis using assms FindChunkPtr_None by blast
next
  case (Some h0)
  note f = FindChunkPtr_kept [OF assms(1) [unfolded Some]]
  show ?thesis
  proof (cases "h = h0")
    case True
    then show ?thesis using f(2) by simp
  next
    case False
    then have "alloc_state (a_chunks a' ! h) = alloc_state (a_chunks a ! h)"
      using f(3) assms(2) by (simp add: kept_def live_def)
    then show ?thesis using assms(3,4) in_use_alloc_state(1) by blast
  qed
qed

lemma AllocateRawInternal_reuse:
  assumes "AllocateRawInternal a dev n s = Inr (out, a')"
    "live a h" "\<not> in_use (a_chunks a ! h)" "in_use (a_chunks a' ! h)"
  shows "safe_to_use (a_chunks a ! h) s"
proof -
  let ?rb = "RoundedBytes n" and ?bin = "BinNumForSize (RoundedBytes n)"
  have ne: "a' \<noteq> a" using assms(3,4) by auto
  then have n0: "n \<noteq> 0" "\<not> - kMinAllocationSize < n"
    using assms(1) by (auto simp: AllocateRawInternal_def split: if_splits)
  obtain r a1 where f1: "FindChunkPtr a ?bin ?rb n s = Inr (r, a1)"
    using assms(1) n0 by (auto simp: AllocateRawInternal_def Let_def split: sum.splits)
  show ?thesis
  proof (cases r)
    case (Some h0)
    then have "a' = a1" using assms(1) n0 f1 by (simp add: AllocateRawInternal_def Let_def)
    then show ?thesis using FindChunkPtr_reuse [OF f1 assms(2,3)] assms(4) by simp
  next
    case None
    then obtain a2 where e: "Extend a dev ?rb = Inr (Some a2)"
      using assms(1) n0 f1 ne
      by (auto simp: AllocateRawInternal_def Let_def split: sum.splits option.splits)
    obtain r2 a3 where f2: "FindChunkPtr a2 ?bin ?rb n s = Inr (r2, a3)"
      using assms(1) n0 f1 None e
      by (auto simp: AllocateRawInternal_def Let_def split: sum.splits)
    note k = Extend_kept [OF e]
    have st: "alloc_state (a_chunks a2 ! h) = alloc_state (a_chunks a ! h)"
      and l2: "live a2 h"
      using k assms(2) by (auto simp: kept_def live_def)
    have a': "a' = a3 \<or> a' = a2"
      using assms(1) n0 f1 None e f2
      by (auto simp: AllocateRawInternal_def Let_def split: option.splits)
    have u2: "\<not> in_use (a_chunks a2 ! h)" using st assms(3) in_use_alloc_state(1) by blast
    then have "a' = a3" using a' assms(4) by auto
    then have "safe_to_use (a_chunks a2 ! h) s"
      using FindChunkPtr_reuse [OF f2 l2 u2] assms(4) by simp
    then show ?thesis using st in_use_alloc_state(2) by blast
  qed
qed

lemma run_history_snoc:
  "run_history tbl (evs @ [(p, c)]) = synchronize (run_history tbl evs) p c"
  by (induction evs arbitrary: tbl) auto

lemma synchronize_last_wait:
  "last_wait (synchronize tbl p c x) =
     (if x = c then (p, sync_id (tbl p) + 1) # last_wait (tbl c) else last_wait (tbl x))"
  by (simp add: synchronize_def Let_def)

lemma synchronize_sync_id:
  "sync_id (synchronize tbl p c x) = (if x = p then sync_id (tbl p) + 1 else sync_id (tbl x))"
  by (simp add: synchronize_def Let_def)

lemma synchronize_ident:
  "stream_ident (synchronize tbl p c x) = stream_ident (tbl x)"
  by (simp add: synchronize_def Let_def)

lemma run_history_ident: "stream_ident (run_history init_streams evs x) = x"
  by (induction evs rule: rev_induct)
     (auto simp: init_streams_def run_history_snoc synchronize_ident)

lemma last_wait_history:
  assumes "map_of (last_wait (run_history init_streams evs C)) S = Some k"
  shows "\<exists>evs1 evs2. evs = evs1 @ (S, C) # evs2 \<and> (S, C) \<notin> set evs2
           \<and> k = sync_id (run_history init_streams (evs1 @ [(S, C)]) S)"
  using assms
proof (induction evs rule: rev_induct)
  case Nil
  then show ?case by (simp add: init_streams_def)
next
  case (snoc e evs)
  obtain p c where e: "e = (p, c)" by (cases e)
  show ?case
  proof (cases "p = S \<and> c = C")
    case True
    then have "k = sync_id (run_history init_streams (evs @ [(S, C)]) S)"
      using snoc.prems
      by (simp add: e run_history_snoc synchronize_last_wait synchronize_sync_id)
    then have "evs @ [e] = evs @ (S, C) # [] \<and> (S, C) \<notin> set []
       \<and> k = sync_id (run_history init_streams (evs @ [(S, C)]) S)"
      using True e by simp
    then show ?thesis by blast
  next
    case False
    then have "map_of (last_wait (run_history init_streams evs C)) S = Some k"
      using snoc.prems
      by (auto simp: e run_history_snoc synchronize_last_wait split: if_splits)
    from snoc.IH [OF this] obtain evs1 evs2 where
      "evs = evs1 @ (S, C) # evs2" "(S, C) \<notin> set evs2"
      "k = sync_id (run_history init_streams (evs1 @ [(S, C)]) S)" by blast
    then have "evs @ [e] = evs1 @ (S, C) # (evs2 @ [e]) \<and> (S, C) \<notin> set (evs2 @ [e])
       \<and> k = sync_id (run_history init_streams (evs1 @ [(S, C)]) S)"
      using False e by auto
    then show ?thesis by blast
  qed
qed

lemma streams_synced_1:
  "streams_synced (Suc 0) = \<lparr>stream_ident = 1, sync_id = 0, last_wait = [(0, 1)]\<rparr>"
  by (simp add: streams_synced_def synchronize_def init_streams_def Let_def)

lemma arena_tagged_fields:
  "a_arena_type arena_tagged = StreamAwareArena"
  "a_free_chunks_list arena_tagged = []"
  "a_chunks arena_tagged = [\<lparr>chunk_size = 512, requested_size = 512, allocation_id = - 1, ptr = 4096,
                     prev = kInvalidChunkHandle, next = kInvalidChunkHandle,
                     bin_num = 1, stream = Some 0, stream_sync_id = 0\<rparr>]"
  "a_bins arena_tagged = (a_bins arena_default)[1 := \<lparr>bin_size = BinNumToSize 1, free_chunks = [0]\<rparr>]"
  "a_next_allocation_id arena_tagged = 2"
  by (simp_all add: arena_tagged_def arena_default_fields)

lemma AllocOnStream_arena_tagged:
  "AllocOnStream arena_tagged device_none 512 (Some (streams_synced 1)) =
     Inr (4096, arena_tagged
      \<lparr>a_bins := (a_bins arena_default)[1 := \<lparr>bin_size = BinNumToSize 1, free_chunks = []\<rparr>],
        a_chunks := [\<lparr>chunk_size = 512, requested_size = 512, allocation_id = 2, ptr = 4096,
                      prev = kInvalidChunkHandle, next = kInvalidChunkHandle,
                      bin_num = kInvalidBinNum, stream = Some 1, stream_sync_id = 0\<rparr>],
        a_next_allocation_id := 3,
        a_stats := (a_stats arena_tagged)
           \<lparr>num_allocs := num_allocs (a_stats arena_tagged) + 1,
            bytes_in_use := bytes_in_use (a_stats arena_tagged) + 512,
            max_bytes_in_use := max (max_bytes_in_use (a_stats arena_tagged))
                 (bytes_in_use (a_stats arena_tagged) + 512)\<rparr>\<rparr>)"
  by (simp add: AllocOnStream_def AllocateRawInternal_def FindChunkPtr_def
      SplitFreeChunkFromBin_def find_in_bins_upt RoundedBytes_values safe_to_use_def
      GetSyncIdForLastWaitOnStream_def streams_synced_1 arena_tagged_fields
      kMinAllocationSize_256 kNumBins_def arena_default_fields arena_default_bin eval_defs)

text \<open>
  Claim C1. A chunk of the arena that is free before a call of \<^verbatim>\<open>AllocOnStream\<close> and in use
  after it, and that carried the tag of a stream \<open>S\<close> other than the consumer stream \<open>C\<close> of
  the call, was handed out on these grounds only: the history \<open>evs\<close> of synchronizations that
  made the consumer's state contains a synchronization of \<open>C\<close> with the producer \<open>S\<close>, and the
  sync id of \<open>S\<close> that the last such synchronization recorded is greater than the sync id \<open>K\<close>
  of the chunk, so in particular it is at least \<open>K\<close>. This holds for every history, every
  arena state and every request. The comparison is the strict one of the comment on
  \<^verbatim>\<open>IAllocator::AllocOnStream\<close>.
\<close>

theorem stream_reuse_rule:
  assumes "AllocOnStream a dev n (Some (run_history init_streams evs C)) = Inr (out, a')"
    and "live a h" and "\<not> in_use (a_chunks a ! h)"
    and "stream (a_chunks a ! h) = Some S" and "stream_sync_id (a_chunks a ! h) = K"
    and "S \<noteq> C"
    and "in_use (a_chunks a' ! h)"
  shows "\<exists>evs1 evs2. evs = evs1 @ (S, C) # evs2 \<and> (S, C) \<notin> set evs2
           \<and> K < sync_id (run_history init_streams (evs1 @ [(S, C)]) S)
           \<and> K \<le> sync_id (run_history init_streams (evs1 @ [(S, C)]) S)"
proof -
  let ?Cs = "run_history init_streams evs C"
  obtain s where s: "s = None \<or> s = Some ?Cs"
    and al: "AllocateRawInternal a dev n s = Inr (out, a')"
    using assms(1) by (auto simp: AllocOnStream_def Alloc_def split: ArenaType.splits)
  have safe: "safe_to_use (a_chunks a ! h) s"
    by (rule AllocateRawInternal_reuse [OF al assms(2,3,7)])
  have "s \<noteq> None" using safe assms(4) by (cases s) (auto simp: safe_to_use_def)
  then have s': "s = Some ?Cs" using s by blast
  obtain k where k: "map_of (last_wait ?Cs) S = Some k" and lt: "K < k"
    using safe assms(4,5,6) unfolding s'
    by (auto simp: safe_to_use_def run_history_ident GetSyncIdForLastWaitOnStream_def
        split: option.splits)
  from last_wait_history [OF k] obtain evs1 evs2 where
    e: "evs = evs1 @ (S, C) # evs2" "(S, C) \<notin> set evs2"
      "k = sync_id (run_history init_streams (evs1 @ [(S, C)]) S)" by blast
  have "K \<le> k" using lt by simp
  with e lt show ?thesis by blast
qed

theorem stream_reuse_rule_witness:
  "AllocOnStream arena_tagged device_none 512 (Some (streams_synced 1))
     = Inr (4096, arena_tagged_reused)
   \<and> live arena_tagged 0 \<and> \<not> in_use (a_chunks arena_tagged ! 0)
   \<and> stream (a_chunks arena_tagged ! 0) = Some 0
   \<and> stream_sync_id (a_chunks arena_tagged ! 0) = 0
   \<and> in_use (a_chunks arena_tagged_reused ! 0)
   \<and> (\<exists>evs1 evs2. [(0, 1)] = evs1 @ (0, 1) # evs2 \<and> (0, 1) \<notin> set evs2
           \<and> 0 < sync_id (run_history init_streams (evs1 @ [(0, 1)]) 0)
           \<and> 0 \<le> sync_id (run_history init_streams (evs1 @ [(0, 1)]) 0))"
proof -
  have r: "AllocOnStream arena_tagged device_none 512 (Some (streams_synced 1))
     = Inr (4096, arena_tagged_reused)"
    unfolding arena_tagged_reused_def AllocOnStream_arena_tagged by simp
  have u: "in_use (a_chunks arena_tagged_reused ! 0)"
    unfolding arena_tagged_reused_def AllocOnStream_arena_tagged by (simp add: in_use_def)
  have f: "live arena_tagged 0" "\<not> in_use (a_chunks arena_tagged ! 0)"
    "stream (a_chunks arena_tagged ! 0) = Some 0"
    "stream_sync_id (a_chunks arena_tagged ! 0) = 0"
    by (simp_all add: live_def in_use_def arena_tagged_fields)
  from stream_reuse_rule [of arena_tagged device_none 512 "[(0, 1)]" 1 4096
      arena_tagged_reused 0 0 0] r u f
  show ?thesis by (simp add: streams_synced_def)
qed

end
